theory Spec2Isabelle
  imports Complex_Main
begin

section \<open>Wave orchestration engine: data model\<close>

text \<open>
  The embedding follows \<^verbatim>\<open>wave/wave_orchestrator.py\<close> and
  \<^verbatim>\<open>wave/wave_integration.py\<close>. Python floats are modelled as reals
  (rounding is not modelled), Python ints as \<open>int\<close>, lists as lists, and dictionaries
  as association lists in insertion order. Strings are byte strings.
\<close>

datatype WaveStrategy = PROGRESSIVE | SYSTEMATIC | ADAPTIVE | ENTERPRISE

datatype WavePhase = REVIEW | PLANNING | IMPLEMENTATION | VALIDATION | OPTIMIZATION

text \<open>The \<^verbatim>\<open>.value\<close> of the two enums.\<close>

fun strategy_value :: "WaveStrategy \<Rightarrow> string" where
  "strategy_value PROGRESSIVE = ''progressive''"
| "strategy_value SYSTEMATIC = ''systematic''"
| "strategy_value ADAPTIVE = ''adaptive''"
| "strategy_value ENTERPRISE = ''enterprise''"

fun phase_value :: "WavePhase \<Rightarrow> string" where
  "phase_value REVIEW = ''review''"
| "phase_value PLANNING = ''planning''"
| "phase_value IMPLEMENTATION = ''implementation''"
| "phase_value VALIDATION = ''validation''"
| "phase_value OPTIMIZATION = ''optimization''"

text \<open>\<^verbatim>\<open>list(WavePhase)\<close>: the members in definition order.\<close>

definition all_phases :: "WavePhase list" where
  "all_phases = [REVIEW, PLANNING, IMPLEMENTATION, VALIDATION, OPTIMIZATION]"

text \<open>Values stored in the phase-specific result dictionaries.\<close>

datatype pyval = PInt int | PStr string | PFloat real

text \<open>
  The \<^verbatim>\<open>results\<close> dictionary built by \<^verbatim>\<open>execute_phase\<close>. The phase-specific entry
  (\<^verbatim>\<open>'findings'\<close>, \<^verbatim>\<open>'plan'\<close>, \<^verbatim>\<open>'changes'\<close>, \<^verbatim>\<open>'validation'\<close>, \<^verbatim>\<open>'optimization'\<close>) is
  kept under its key in \<open>pr_payload\<close>; \<^verbatim>\<open>'duration'\<close> (wall-clock time) is left out.
\<close>

record PhaseResult =
  pr_phase :: string
  pr_status :: string
  pr_primary_agent :: "string option"
  pr_support_agents :: "string list"
  pr_tools_used :: "string list"
  pr_metrics :: "(string \<times> real) list"
  pr_payload :: "(string \<times> (string \<times> pyval) list) list"
  pr_error :: "string option"

record WaveContext =
  wave_id :: string
  strategy :: WaveStrategy
  complexity_score :: real
  file_count :: int
  operation_types :: "string list"
  domains :: "string list"
  current_phase :: WavePhase
  phase_results :: "(string \<times> PhaseResult) list"
  metrics :: "(string \<times> real) list"
  start_time :: real

text \<open>
  The dataclass constructor with its defaults; \<open>now\<close> is the clock reading that
  \<^verbatim>\<open>start_time\<close> defaults to.
\<close>

definition make_context ::
  "string \<Rightarrow> WaveStrategy \<Rightarrow> real \<Rightarrow> int \<Rightarrow> string list \<Rightarrow> string list \<Rightarrow> real \<Rightarrow> WaveContext" where
  "make_context wid strat score files ops doms now =
     \<lparr>wave_id = wid, strategy = strat, complexity_score = score, file_count = files,
      operation_types = ops, domains = doms, current_phase = REVIEW, phase_results = [],
      metrics = [], start_time = now\<rparr>"

section \<open>Strategy selection\<close>

definition select_strategy :: "WaveContext \<Rightarrow> WaveStrategy" where
  "select_strategy context =
     (if file_count context > 100 \<and> complexity_score context > 0.7 then ENTERPRISE
      else if length (domains context) > 2 \<and> length (operation_types context) > 3 then ADAPTIVE
      else if complexity_score context > 0.8 \<and> ''security_audit'' \<in> set (operation_types context)
        then SYSTEMATIC
      else if ''optimization'' \<in> set (operation_types context)
              \<or> ''refactoring'' \<in> set (operation_types context) then PROGRESSIVE
      else SYSTEMATIC)"

section \<open>Adaptive phase planning\<close>

definition select_adaptive_phases :: "WaveContext \<Rightarrow> WavePhase list" where
  "select_adaptive_phases context =
     (let phases = [REVIEW];
          phases = (if complexity_score context > 0.7 then phases @ [PLANNING] else phases);
          phases = phases @ [IMPLEMENTATION];
          phases = (if ''testing'' \<in> set (operation_types context) \<or> complexity_score context > 0.6
                    then phases @ [VALIDATION] else phases);
          phases = (if ''optimization'' \<in> set (operation_types context)
                       \<or> ''performance_tuning'' \<in> set (operation_types context)
                    then phases @ [OPTIMIZATION] else phases)
      in phases)"

section \<open>Complexity analysis\<close>

text \<open>
  What \<^verbatim>\<open>pathlib\<close> reports for a target: it does not exist, it is a regular file, it
  is a directory under which \<^verbatim>\<open>rglob("*.py")\<close> yields the given number of paths, it
  exists but is neither (\<open>Special\<close>), or inspecting it raises (\<open>Unreadable\<close>).
\<close>

datatype target_kind = Missing | RegularFile | Directory nat | Special | Unreadable

text \<open>\<^verbatim>\<open>str.lower()\<close> on ASCII letters.\<close>

definition lower_char :: "char \<Rightarrow> char" where
  "lower_char c =
     (case map_of (zip ''ABCDEFGHIJKLMNOPQRSTUVWXYZ'' ''abcdefghijklmnopqrstuvwxyz'') c of
        None \<Rightarrow> c
      | Some l \<Rightarrow> l)"

definition lower :: "string \<Rightarrow> string" where
  "lower s = map lower_char s"

fun startswith :: "string \<Rightarrow> string \<Rightarrow> bool" where
  "startswith [] s = True"
| "startswith (k # ks) [] = False"
| "startswith (k # ks) (c # cs) = (k = c \<and> startswith ks cs)"

text \<open>\<^verbatim>\<open>kw in s\<close> for strings: \<open>kw\<close> occurs in \<open>s\<close> as a substring.\<close>

fun contains :: "string \<Rightarrow> string \<Rightarrow> bool" where
  "contains kw [] = (kw = [])"
| "contains kw (c # cs) = (startswith kw (c # cs) \<or> contains kw cs)"

definition operation_keywords :: "(string \<times> string) list" where
  "operation_keywords =
     [(''optimize'', ''optimization''),
      (''refactor'', ''refactoring''),
      (''security'', ''security_audit''),
      (''performance'', ''performance_tuning''),
      (''quality'', ''quality_improvement''),
      (''test'', ''testing''),
      (''document'', ''documentation'')]"

definition domain_keywords :: "(string \<times> string list) list" where
  "domain_keywords =
     [(''frontend'', [''ui'', ''component'', ''react'', ''vue'']),
      (''backend'', [''api'', ''server'', ''database'', ''endpoint'']),
      (''infrastructure'', [''docker'', ''kubernetes'', ''deploy'']),
      (''security'', [''auth'', ''vulnerability'', ''encrypt'']),
      (''data'', [''etl'', ''pipeline'', ''analytics''])]"

text \<open>
  The \<^verbatim>\<open>try\<close> block: any exception leaves score and file count at their initial
  values, since each is assigned only after the calls that can raise.
\<close>

fun file_analysis :: "target_kind \<Rightarrow> real \<times> int" where
  "file_analysis Missing = (0, 0)"
| "file_analysis RegularFile = (0.3, 1)"
| "file_analysis (Directory n) = (min (0.3 + (real n * 0.01)) 1, int n)"
| "file_analysis Special = (0, 0)"
| "file_analysis Unreadable = (0, 0)"

text \<open>The two keyword loops, over the dictionaries' items in insertion order.\<close>

fun detect_operations ::
  "string \<Rightarrow> (string \<times> string) list \<Rightarrow> string list \<times> real \<Rightarrow> string list \<times> real" where
  "detect_operations target [] acc = acc"
| "detect_operations target ((keyword, op_type) # rest) (op_types, score) =
     (if contains keyword (lower target)
      then detect_operations target rest (op_types @ [op_type], score + 0.1)
      else detect_operations target rest (op_types, score))"

fun detect_domains ::
  "string \<Rightarrow> (string \<times> string list) list \<Rightarrow> string list \<times> real \<Rightarrow> string list \<times> real" where
  "detect_domains target [] acc = acc"
| "detect_domains target ((domain, keywords) # rest) (doms, score) =
     (if list_ex (\<lambda>kw. contains kw (lower target)) keywords
      then detect_domains target rest (doms @ [domain], score + 0.05)
      else detect_domains target rest (doms, score))"

definition analyze_complexity ::
  "(string \<Rightarrow> target_kind) \<Rightarrow> string \<Rightarrow> real \<times> int \<times> string list \<times> string list" where
  "analyze_complexity fs target =
     (let (complexity_score, file_count) = file_analysis (fs target);
          (operation_types, complexity_score) =
             detect_operations target operation_keywords ([], complexity_score);
          (domains, complexity_score) =
             detect_domains target domain_keywords ([], complexity_score);
          complexity_score = min complexity_score 1;
          complexity_score =
            (if file_count > 100 then max complexity_score 0.8
             else if file_count > 50 then max complexity_score 0.7
             else complexity_score)
      in (complexity_score, file_count, operation_types, domains))"

section \<open>Phase execution and the wave state machine\<close>

text \<open>A dictionary assignment \<^verbatim>\<open>d[k] = v\<close> on an insertion-ordered dictionary.\<close>

fun dict_set :: "string \<Rightarrow> 'v \<Rightarrow> (string \<times> 'v) list \<Rightarrow> (string \<times> 'v) list" where
  "dict_set k v [] = [(k, v)]"
| "dict_set k v ((k', v') # rest) =
     (if k = k' then (k, v) # rest else (k', v') # dict_set k v rest)"

record AgentConfig =
  ac_primary :: string
  ac_support :: "string list"
  ac_tools :: "string list"

definition agents_config :: "(string \<times> AgentConfig) list" where
  "agents_config =
     [(''review'', \<lparr>ac_primary = ''analyzer'', ac_support = [''quality'', ''security''],
                    ac_tools = [''Read'', ''Grep'', ''Sequential'']\<rparr>),
      (''planning'', \<lparr>ac_primary = ''architect'', ac_support = [''performance''],
                      ac_tools = [''Sequential'', ''Context7'', ''Write'']\<rparr>),
      (''implementation'', \<lparr>ac_primary = ''builder'', ac_support = [''quality''],
                            ac_tools = [''Edit'', ''MultiEdit'', ''Task'']\<rparr>),
      (''validation'', \<lparr>ac_primary = ''qa'', ac_support = [''security'', ''performance''],
                        ac_tools = [''Sequential'', ''Playwright'', ''Context7'']\<rparr>),
      (''optimization'', \<lparr>ac_primary = ''performance'', ac_support = [''quality''],
                          ac_tools = [''Read'', ''Sequential'', ''Grep'']\<rparr>)]"

datatype iteration_count = Fixed int | Auto

record StrategyConfig =
  sc_phases :: "WavePhase list"
  sc_iterations :: iteration_count
  sc_checkpoint_frequency :: string
  sc_rollback_enabled :: bool
  sc_parallel_execution :: bool
  sc_distributed :: "bool option"

text \<open>\<^verbatim>\<open>self.strategy_configs\<close> as set up by the constructor.\<close>

fun strategy_configs :: "WaveStrategy \<Rightarrow> StrategyConfig" where
  "strategy_configs PROGRESSIVE =
     \<lparr>sc_phases = [REVIEW, IMPLEMENTATION, VALIDATION], sc_iterations = Fixed 3,
      sc_checkpoint_frequency = ''per_iteration'', sc_rollback_enabled = True,
      sc_parallel_execution = False, sc_distributed = None\<rparr>"
| "strategy_configs SYSTEMATIC =
     \<lparr>sc_phases = all_phases, sc_iterations = Fixed 1,
      sc_checkpoint_frequency = ''per_phase'', sc_rollback_enabled = True,
      sc_parallel_execution = False, sc_distributed = None\<rparr>"
| "strategy_configs ADAPTIVE =
     \<lparr>sc_phases = [], sc_iterations = Auto,
      sc_checkpoint_frequency = ''adaptive'', sc_rollback_enabled = True,
      sc_parallel_execution = True, sc_distributed = None\<rparr>"
| "strategy_configs ENTERPRISE =
     \<lparr>sc_phases = all_phases, sc_iterations = Fixed 1,
      sc_checkpoint_frequency = ''continuous'', sc_rollback_enabled = True,
      sc_parallel_execution = True, sc_distributed = Some True\<rparr>"

text \<open>
  The persistence store is modelled by the sequence of statements written to it, in
  the order they are executed, each with the parameters the claims below read
  (timestamps and JSON blobs are left out). Failures of the store itself are not
  modelled. \<open>UpdatePhase\<close> carries the row id the source passes, which it reads from
  \<^verbatim>\<open>lastrowid\<close> of a cursor that has executed nothing.
\<close>

datatype db_write =
    InsertWave string string real int nat
  | InsertPhase string string "string option" "string list"
  | UpdatePhase "nat option" string
  | InsertCheckpoint string string "(string \<times> PhaseResult) list" "(string \<times> real) list"
  | UpdateWave string string nat

definition create_checkpoint :: "WaveContext \<Rightarrow> WavePhase \<Rightarrow> db_write list \<Rightarrow> db_write list" where
  "create_checkpoint context phase db =
     db @ [InsertCheckpoint (wave_id context) (phase_value phase)
             (phase_results context) (metrics context)]"

text \<open>The phase-specific branch of \<^verbatim>\<open>execute_phase\<close> (the simulated work's results).\<close>

fun phase_work :: "WaveContext \<Rightarrow> WavePhase \<Rightarrow> PhaseResult \<Rightarrow> PhaseResult" where
  "phase_work context REVIEW results =
     results\<lparr>pr_payload := dict_set ''findings''
                 [(''issues_found'', PInt 15), (''critical'', PInt 2), (''high'', PInt 5),
                  (''medium'', PInt 8)] (pr_payload results),
              pr_metrics := dict_set ''coverage'' 0.85 (pr_metrics results)\<rparr>"
| "phase_work context PLANNING results =
     results\<lparr>pr_payload := dict_set ''plan''
                 [(''steps'', PInt 10), (''estimated_time'', PStr ''2 hours''),
                  (''risk_level'', PStr ''medium'')] (pr_payload results),
              pr_metrics := dict_set ''confidence'' 0.92 (pr_metrics results)\<rparr>"
| "phase_work context IMPLEMENTATION results =
     results\<lparr>pr_payload := dict_set ''changes''
                 [(''files_modified'', PInt (file_count context)),
                  (''lines_changed'', PInt (file_count context * 50)),
                  (''tests_added'', PInt 5)] (pr_payload results),
              pr_metrics := dict_set ''completion'' 0.95 (pr_metrics results)\<rparr>"
| "phase_work context VALIDATION results =
     results\<lparr>pr_payload := dict_set ''validation''
                 [(''tests_passed'', PInt 45), (''tests_failed'', PInt 2),
                  (''coverage'', PFloat 0.88)] (pr_payload results),
              pr_metrics := dict_set ''success_rate'' 0.96 (pr_metrics results)\<rparr>"
| "phase_work context OPTIMIZATION results =
     results\<lparr>pr_payload := dict_set ''optimization''
                 [(''performance_gain'', PStr ''35%''), (''memory_saved'', PStr ''20%''),
                  (''complexity_reduced'', PStr ''15%'')] (pr_payload results),
              pr_metrics := dict_set ''improvement'' 0.35 (pr_metrics results)\<rparr>"

text \<open>
  \<^verbatim>\<open>execute_phase\<close>. The parameter \<open>raises\<close> is the environment: for a wave id and a
  phase it gives the message of the exception raised while the phase's work is awaited
  inside the \<^verbatim>\<open>try\<close> block, if any. The \<^verbatim>\<open>except\<close> branch turns it into a
  \<^verbatim>\<open>'failed'\<close> result.
\<close>

definition execute_phase ::
  "(string \<Rightarrow> WavePhase \<Rightarrow> string option) \<Rightarrow> WaveContext \<Rightarrow> WavePhase \<Rightarrow> db_write list
     \<Rightarrow> PhaseResult \<times> db_write list" where
  "execute_phase raises context phase db =
     (let phase_config = map_of agents_config (phase_value phase);
          primary_agent = map_option ac_primary phase_config;
          support_agents = (case phase_config of None \<Rightarrow> [] | Some c \<Rightarrow> ac_support c);
          tools = (case phase_config of None \<Rightarrow> [] | Some c \<Rightarrow> ac_tools c);
          results = \<lparr>pr_phase = phase_value phase, pr_status = ''in_progress'',
                     pr_primary_agent = primary_agent, pr_support_agents = support_agents,
                     pr_tools_used = tools, pr_metrics = [], pr_payload = [],
                     pr_error = None\<rparr>;
          db = db @ [InsertPhase (wave_id context) (phase_value phase) primary_agent support_agents]
      in case raises (wave_id context) phase of
           None \<Rightarrow>
             (let results = phase_work context phase results;
                  results = results\<lparr>pr_status := ''completed''\<rparr>
              in (results, db @ [UpdatePhase None ''completed'']))
         | Some e \<Rightarrow>
             (let results = results\<lparr>pr_status := ''failed'', pr_error := Some e\<rparr>
              in (results, db @ [UpdatePhase None ''failed''])))"

text \<open>
  \<^verbatim>\<open>wave_results\<close>: the \<^verbatim>\<open>'metrics'\<close> entry is flattened into two fields
  (\<^verbatim>\<open>'total_duration'\<close>, wall-clock time, is left out).
\<close>

record WaveResults =
  wr_wave_id :: string
  wr_strategy :: string
  wr_phases :: "(string \<times> PhaseResult) list"
  wr_phases_completed :: nat
  wr_success_rate :: real

text \<open>The \<^verbatim>\<open>for phase in phases\<close> loop of \<^verbatim>\<open>execute_wave\<close>, with its \<^verbatim>\<open>break\<close>.\<close>

fun run_phases ::
  "(string \<Rightarrow> WavePhase \<Rightarrow> string option) \<Rightarrow> StrategyConfig \<Rightarrow> WavePhase list
     \<Rightarrow> WaveContext \<times> WaveResults \<times> db_write list \<Rightarrow> WaveContext \<times> WaveResults \<times> db_write list" where
  "run_phases raises strategy_config [] st = st"
| "run_phases raises strategy_config (phase # rest) (context, wave_results, db) =
     (let context = context\<lparr>current_phase := phase\<rparr>;
          db = (if sc_checkpoint_frequency strategy_config \<in> set [''per_phase'', ''continuous'']
                then create_checkpoint context phase db else db);
          (phase_res, db) = execute_phase raises context phase db;
          wave_results = wave_results\<lparr>wr_phases :=
                            dict_set (phase_value phase) phase_res (wr_phases wave_results)\<rparr>;
          context = context\<lparr>phase_results :=
                            dict_set (phase_value phase) phase_res (phase_results context)\<rparr>;
          wave_results = (if pr_status phase_res = ''completed''
                          then wave_results\<lparr>wr_phases_completed :=
                                   wr_phases_completed wave_results + 1\<rparr>
                          else wave_results)
      in if pr_status phase_res = ''failed'' \<and> sc_rollback_enabled strategy_config
         then (context, wave_results, db)
         else run_phases raises strategy_config rest (context, wave_results, db))"

text \<open>
  \<^verbatim>\<open>execute_wave\<close>. \<open>configs\<close> is \<^verbatim>\<open>self.strategy_configs\<close>; the context is
  mutated by the run and returned with the results and the store.
\<close>

definition execute_wave ::
  "(WaveStrategy \<Rightarrow> StrategyConfig) \<Rightarrow> (string \<Rightarrow> WavePhase \<Rightarrow> string option)
     \<Rightarrow> WaveContext \<Rightarrow> db_write list \<Rightarrow> WaveResults \<times> WaveContext \<times> db_write list" where
  "execute_wave configs raises context db =
     (let strategy_config = configs (strategy context);
          phases = sc_phases strategy_config;
          phases = (if strategy context = ADAPTIVE then select_adaptive_phases context else phases);
          wave_results = \<lparr>wr_wave_id = wave_id context,
                          wr_strategy = strategy_value (strategy context),
                          wr_phases = [], wr_phases_completed = 0, wr_success_rate = 0\<rparr>;
          db = db @ [InsertWave (wave_id context) (strategy_value (strategy context))
                       (complexity_score context) (file_count context) (length phases)];
          (context, wave_results, db) =
             run_phases raises strategy_config phases (context, wave_results, db);
          wave_results = wave_results\<lparr>wr_success_rate :=
             (if phases \<noteq> [] then real (wr_phases_completed wave_results) / real (length phases)
              else 0)\<rparr>;
          db = db @ [UpdateWave (wave_id context)
                       (if wr_success_rate wave_results = 1 then ''completed'' else ''partial'')
                       (wr_phases_completed wave_results)]
      in (wave_results, context, db))"

section \<open>Progressive iteration\<close>

text \<open>Decimal rendering of a natural number, as an f-string does.\<close>

fun string_of_nat :: "nat \<Rightarrow> string" where
  "string_of_nat n =
     (if n < 10 then [''0123456789'' ! n]
      else string_of_nat (n div 10) @ [''0123456789'' ! (n mod 10)])"

declare string_of_nat.simps [simp del]

text \<open>
  \<^verbatim>\<open>results['phases'].get('optimization', {}).get('optimization', {}).get('performance_gain', '0%')\<close>
\<close>

definition improvement_of :: "WaveResults \<Rightarrow> pyval" where
  "improvement_of results =
     (case map_of (wr_phases results) ''optimization'' of
        None \<Rightarrow> PStr ''0%''
      | Some phase_res \<Rightarrow>
          (case map_of (pr_payload phase_res) ''optimization'' of
             None \<Rightarrow> PStr ''0%''
           | Some d \<Rightarrow> (case map_of d ''performance_gain'' of None \<Rightarrow> PStr ''0%'' | Some v \<Rightarrow> v)))"

text \<open>The convergence test at the end of the loop body.\<close>

definition converged :: "WaveResults \<Rightarrow> bool" where
  "converged results = (wr_success_rate results = 1 \<and> improvement_of results = PStr ''0%'')"

text \<open>The loop \<^verbatim>\<open>for i in range(iterations)\<close>, over the indices still to run.\<close>

fun progressive_loop ::
  "(WaveStrategy \<Rightarrow> StrategyConfig) \<Rightarrow> (string \<Rightarrow> WavePhase \<Rightarrow> string option) \<Rightarrow> nat list
     \<Rightarrow> WaveResults list \<times> WaveContext \<times> db_write list
     \<Rightarrow> WaveResults list \<times> WaveContext \<times> db_write list" where
  "progressive_loop configs raises [] st = st"
| "progressive_loop configs raises (i # rest) (all_results, context, db) =
     (let context = context\<lparr>wave_id := wave_id context @ ''_iter'' @ string_of_nat (i + 1)\<rparr>;
          (results, context, db) = execute_wave configs raises context db;
          all_results = all_results @ [results]
      in if converged results then (all_results, context, db)
         else progressive_loop configs raises rest (all_results, context, db))"

definition run_progressive_waves ::
  "(WaveStrategy \<Rightarrow> StrategyConfig) \<Rightarrow> (string \<Rightarrow> WavePhase \<Rightarrow> string option)
     \<Rightarrow> WaveContext \<Rightarrow> int \<Rightarrow> db_write list \<Rightarrow> WaveResults list \<times> WaveContext \<times> db_write list" where
  "run_progressive_waves configs raises context iterations db =
     progressive_loop configs raises [0..<nat iterations] ([], context, db)"


text \<open>
  Two notions to state what the loop returns. \<open>all_passes\<close> is the list of the
  results of one pass per index, each run on the context and store the previous pass
  left behind, with no convergence test. \<open>take_until P xs\<close> is \<open>xs\<close> up to and
  including its first element that satisfies \<open>P\<close>.
\<close>

fun all_passes ::
  "(WaveStrategy \<Rightarrow> StrategyConfig) \<Rightarrow> (string \<Rightarrow> WavePhase \<Rightarrow> string option) \<Rightarrow> nat list
     \<Rightarrow> WaveContext \<times> db_write list \<Rightarrow> WaveResults list" where
  "all_passes configs raises [] st = []"
| "all_passes configs raises (i # rest) (context, db) =
     (let context = context\<lparr>wave_id := wave_id context @ ''_iter'' @ string_of_nat (i + 1)\<rparr>;
          (results, context, db) = execute_wave configs raises context db
      in results # all_passes configs raises rest (context, db))"

fun take_until :: "('a \<Rightarrow> bool) \<Rightarrow> 'a list \<Rightarrow> 'a list" where
  "take_until P [] = []"
| "take_until P (x # xs) = x # (if P x then [] else take_until P xs)"

section \<open>Reading the store\<close>

text \<open>The phase list \<^verbatim>\<open>execute_wave\<close> iterates over (its local \<^verbatim>\<open>phases\<close>).\<close>

definition planned_phases :: "(WaveStrategy \<Rightarrow> StrategyConfig) \<Rightarrow> WaveContext \<Rightarrow> WavePhase list" where
  "planned_phases configs context =
     (if strategy context = ADAPTIVE then select_adaptive_phases context
      else sc_phases (configs (strategy context)))"

text \<open>
  The row of table \<^verbatim>\<open>waves\<close> for a wave id, as (status, phases_completed,
  total_phases), after the writes have been applied in order.
\<close>

fun wave_row_step :: "string \<Rightarrow> (string \<times> nat \<times> nat) option \<Rightarrow> db_write \<Rightarrow> (string \<times> nat \<times> nat) option" where
  "wave_row_step wid row (InsertWave w s c f n) =
     (if w = wid then Some (''in_progress'', 0, n) else row)"
| "wave_row_step wid row (UpdateWave w status completed) =
     (if w = wid then map_option (\<lambda>(s, c, n). (status, completed, n)) row else row)"
| "wave_row_step wid row (InsertPhase w p a b) = row"
| "wave_row_step wid row (UpdatePhase i s) = row"
| "wave_row_step wid row (InsertCheckpoint w p a b) = row"

definition wave_row :: "db_write list \<Rightarrow> string \<Rightarrow> (string \<times> nat \<times> nat) option" where
  "wave_row db wid = foldl (wave_row_step wid) None db"

text \<open>The phases of the rows of \<^verbatim>\<open>wave_phases\<close> for a wave id, in insertion order.\<close>

fun started_phases :: "db_write list \<Rightarrow> string \<Rightarrow> string list" where
  "started_phases [] wid = []"
| "started_phases (InsertPhase w p a b # db) wid =
     (if w = wid then p # started_phases db wid else started_phases db wid)"
| "started_phases (x # db) wid = started_phases db wid"

text \<open>The phases of the rows of \<^verbatim>\<open>wave_checkpoints\<close> for a wave id, in insertion order.\<close>

fun checkpointed_phases :: "db_write list \<Rightarrow> string \<Rightarrow> string list" where
  "checkpointed_phases [] wid = []"
| "checkpointed_phases (InsertCheckpoint w p a b # db) wid =
     (if w = wid then p # checkpointed_phases db wid else checkpointed_phases db wid)"
| "checkpointed_phases (x # db) wid = checkpointed_phases db wid"

text \<open>
  Every checkpoint in a sequence of writes is directly followed by the insertion of
  the phase row of the same wave and phase.
\<close>

fun checkpoint_then_start :: "db_write list \<Rightarrow> bool" where
  "checkpoint_then_start [] = True"
| "checkpoint_then_start (InsertCheckpoint w p a b # db) =
     ((case db of InsertPhase w' p' a' b' # rest \<Rightarrow> w' = w \<and> p' = p | _ \<Rightarrow> False)
      \<and> checkpoint_then_start db)"
| "checkpoint_then_start (x # db) = checkpoint_then_start db"

text \<open>A write with the checkpoint's state snapshot blanked.\<close>

fun forget_snapshot :: "db_write \<Rightarrow> db_write" where
  "forget_snapshot (InsertCheckpoint w p a b) = InsertCheckpoint w p [] []"
| "forget_snapshot x = x"

text \<open>
  The phases a pass executes: the list up to and including the first phase that fails
  while rollback is enabled, the whole list otherwise.
\<close>

fun executed_phases ::
  "(string \<Rightarrow> WavePhase \<Rightarrow> string option) \<Rightarrow> StrategyConfig \<Rightarrow> string \<Rightarrow> WavePhase list
     \<Rightarrow> WavePhase list" where
  "executed_phases raises cfg wid [] = []"
| "executed_phases raises cfg wid (p # ps) =
     p # (if raises wid p \<noteq> None \<and> sc_rollback_enabled cfg then []
          else executed_phases raises cfg wid ps)"

text \<open>The writes one executed phase makes, snapshots blanked.\<close>

definition phase_writes ::
  "(string \<Rightarrow> WavePhase \<Rightarrow> string option) \<Rightarrow> StrategyConfig \<Rightarrow> string \<Rightarrow> WavePhase
     \<Rightarrow> db_write list" where
  "phase_writes raises cfg wid p =
     (if sc_checkpoint_frequency cfg \<in> set [''per_phase'', ''continuous'']
      then [InsertCheckpoint wid (phase_value p) [] []] else [])
     @ [InsertPhase wid (phase_value p)
          (map_option ac_primary (map_of agents_config (phase_value p)))
          (case map_of agents_config (phase_value p) of None \<Rightarrow> [] | Some c \<Rightarrow> ac_support c),
        UpdatePhase None (if raises wid p = None then ''completed'' else ''failed'')]"

section \<open>The agent bridge and enterprise fan-out\<close>

record PhaseAgents =
  pa_primary :: string
  pa_secondary :: "string list"
  pa_parallel :: bool

fun phase_agent_map :: "WavePhase \<Rightarrow> PhaseAgents" where
  "phase_agent_map REVIEW =
     \<lparr>pa_primary = ''quality'', pa_secondary = [''security'', ''performance''], pa_parallel = True\<rparr>"
| "phase_agent_map PLANNING =
     \<lparr>pa_primary = ''performance'', pa_secondary = [''quality''], pa_parallel = False\<rparr>"
| "phase_agent_map IMPLEMENTATION =
     \<lparr>pa_primary = ''quality'', pa_secondary = [''security''], pa_parallel = False\<rparr>"
| "phase_agent_map VALIDATION =
     \<lparr>pa_primary = ''security'', pa_secondary = [''quality'', ''monitor''], pa_parallel = True\<rparr>"
| "phase_agent_map OPTIMIZATION =
     \<lparr>pa_primary = ''performance'', pa_secondary = [''monitor''], pa_parallel = True\<rparr>"

record PhaseScores =
  ps_primary :: real
  ps_secondary :: "(string \<times> real) list"
  ps_average :: real

record BridgePhaseResult =
  bp_phase :: string
  bp_primary_agent :: string
  bp_secondary_agents :: "string list"
  bp_execution_mode :: string
  bp_scores :: PhaseScores

record BridgeResults =
  br_wave_id :: string
  br_strategy :: string
  br_phase_results :: "(string \<times> BridgePhaseResult) list"
  br_overall_score :: real
  br_status :: string

datatype py_error = ZeroDivisionError

text \<open>
  The phase loop of \<^verbatim>\<open>execute_wave_with_agents\<close>. The parameter \<open>get_agent_score\<close>
  gives what the call of that name returns for a wave id, the phase during which it is
  made and the agent key (in the source 0.85 for an agent whose status is active and
  0.5 otherwise); it is a parameter because the agents' status is shared by the waves
  that run concurrently. Starting the agents has no other effect on the results.
\<close>

fun bridge_phases ::
  "(string \<Rightarrow> WavePhase \<Rightarrow> string \<Rightarrow> real) \<Rightarrow> StrategyConfig \<Rightarrow> WaveContext \<Rightarrow> WavePhase list
     \<Rightarrow> (string \<times> BridgePhaseResult) list \<times> db_write list
     \<Rightarrow> (string \<times> BridgePhaseResult) list \<times> db_write list" where
  "bridge_phases get_agent_score strategy_config context [] st = st"
| "bridge_phases get_agent_score strategy_config context (phase # rest) (phase_res, db) =
     (let agent_config = phase_agent_map phase;
          primary_agent = pa_primary agent_config;
          secondary_agents = pa_secondary agent_config;
          parallel = pa_parallel agent_config;
          primary_score = get_agent_score (wave_id context) phase primary_agent;
          secondary_scores =
            foldl (\<lambda>d agent. dict_set agent (get_agent_score (wave_id context) phase agent) d)
              [] secondary_agents;
          scores = \<lparr>ps_primary = primary_score, ps_secondary = secondary_scores,
                    ps_average = (primary_score + sum_list (map snd secondary_scores))
                                  / (1 + real (length secondary_scores))\<rparr>;
          res = \<lparr>bp_phase = phase_value phase, bp_primary_agent = primary_agent,
                 bp_secondary_agents = secondary_agents,
                 bp_execution_mode = (if parallel then ''parallel'' else ''sequential''),
                 bp_scores = scores\<rparr>;
          phase_res = dict_set (phase_value phase) res phase_res;
          db = (if sc_checkpoint_frequency strategy_config \<in> set [''per_phase'', ''continuous'']
                then create_checkpoint context phase db else db)
      in bridge_phases get_agent_score strategy_config context rest (phase_res, db))"

definition execute_wave_with_agents ::
  "(string \<Rightarrow> WavePhase \<Rightarrow> string \<Rightarrow> real) \<Rightarrow> (WaveStrategy \<Rightarrow> StrategyConfig) \<Rightarrow> WaveContext
     \<Rightarrow> db_write list \<Rightarrow> py_error + (BridgeResults \<times> db_write list)" where
  "execute_wave_with_agents get_agent_score configs context db =
     (let strategy_config = configs (strategy context);
          phases = sc_phases strategy_config;
          phases = (if strategy context = ADAPTIVE then select_adaptive_phases context else phases);
          (phase_res, db) = bridge_phases get_agent_score strategy_config context phases ([], db)
      in if phase_res = [] then Inl ZeroDivisionError
         else
           (let total_score = sum_list (map (\<lambda>(k, pr). ps_average (bp_scores pr)) phase_res)
                                / real (length phase_res)
            in Inr (\<lparr>br_wave_id = wave_id context,
                      br_strategy = strategy_value (strategy context),
                      br_phase_results = phase_res,
                      br_overall_score = total_score,
                      br_status = (if total_score > 0.7 then ''success''
                                   else ''needs_improvement'')\<rparr>, db)))"

record Summary =
  sm_total_targets :: nat
  sm_successful :: nat
  sm_failed :: nat
  sm_average_score :: real

record EnterpriseResults =
  er_strategy :: string
  er_targets :: "(string \<times> BridgeResults) list"
  er_summary :: Summary

text \<open>
  The tasks \<^verbatim>\<open>run_enterprise_wave\<close> builds, one per target, each paired with its
  outcome: \<open>gen_id\<close> and \<open>now\<close> give the id and start time the i-th context gets
  (a hash of the clock, and the clock). Each wave is run against the store \<open>db\<close>;
  the writes of the concurrent waves are not merged, only their results are kept.
\<close>

definition enterprise_context ::
  "(string \<Rightarrow> target_kind) \<Rightarrow> (nat \<Rightarrow> string) \<Rightarrow> (nat \<Rightarrow> real) \<Rightarrow> nat \<Rightarrow> string \<Rightarrow> WaveContext" where
  "enterprise_context fs gen_id now i target =
     (let (complexity, files, ops, doms) = analyze_complexity fs target
      in make_context (gen_id i) ENTERPRISE complexity files ops doms (now i))"

definition enterprise_tasks ::
  "(string \<Rightarrow> target_kind) \<Rightarrow> (nat \<Rightarrow> string) \<Rightarrow> (nat \<Rightarrow> real)
     \<Rightarrow> (string \<Rightarrow> WavePhase \<Rightarrow> string \<Rightarrow> real) \<Rightarrow> (WaveStrategy \<Rightarrow> StrategyConfig)
     \<Rightarrow> db_write list \<Rightarrow> string list \<Rightarrow> (py_error + BridgeResults) list" where
  "enterprise_tasks fs gen_id now get_agent_score configs db targets =
     map (\<lambda>(i, target).
            map_sum id fst
              (execute_wave_with_agents get_agent_score configs
                 (enterprise_context fs gen_id now i target) db))
         (zip [0..<length targets] targets)"

text \<open>\<^verbatim>\<open>asyncio.gather\<close>: the results in task order, or the first exception.\<close>

fun gather :: "('e + 'a) list \<Rightarrow> 'e + 'a list" where
  "gather [] = Inr []"
| "gather (Inl e # rest) = Inl e"
| "gather (Inr r # rest) = (case gather rest of Inl e \<Rightarrow> Inl e | Inr rs \<Rightarrow> Inr (r # rs))"

text \<open>The loop \<^verbatim>\<open>for i, target in enumerate(targets)\<close> that compiles the results.\<close>

fun compile_results :: "(string \<times> BridgeResults) list \<Rightarrow> EnterpriseResults \<Rightarrow> EnterpriseResults" where
  "compile_results [] all_results = all_results"
| "compile_results ((target, res) # rest) all_results =
     (let all_results = all_results\<lparr>er_targets := dict_set target res (er_targets all_results)\<rparr>;
          summary = er_summary all_results;
          summary = (if br_status res = ''success''
                     then summary\<lparr>sm_successful := sm_successful summary + 1\<rparr>
                     else summary\<lparr>sm_failed := sm_failed summary + 1\<rparr>)
      in compile_results rest (all_results\<lparr>er_summary := summary\<rparr>))"

definition run_enterprise_wave ::
  "(string \<Rightarrow> target_kind) \<Rightarrow> (nat \<Rightarrow> string) \<Rightarrow> (nat \<Rightarrow> real)
     \<Rightarrow> (string \<Rightarrow> WavePhase \<Rightarrow> string \<Rightarrow> real) \<Rightarrow> (WaveStrategy \<Rightarrow> StrategyConfig)
     \<Rightarrow> db_write list \<Rightarrow> string list \<Rightarrow> py_error + EnterpriseResults" where
  "run_enterprise_wave fs gen_id now get_agent_score configs db targets =
     (let all_results = \<lparr>er_strategy = ''enterprise'', er_targets = [],
                         er_summary = \<lparr>sm_total_targets = length targets, sm_successful = 0,
                                       sm_failed = 0, sm_average_score = 0\<rparr>\<rparr>
      in case gather (enterprise_tasks fs gen_id now get_agent_score configs db targets) of
           Inl e \<Rightarrow> Inl e
         | Inr results \<Rightarrow>
             (let all_results = compile_results (zip targets results) all_results
              in if results = [] then Inl ZeroDivisionError
                 else Inr (all_results\<lparr>er_summary := (er_summary all_results)
                             \<lparr>sm_average_score :=
                                sum_list (map br_overall_score results)
                                  / real (length results)\<rparr>\<rparr>)))"

section \<open>Properties of the strategy selector\<close>

text \<open>
  C1. The selector depends only on the profile fields (file count, complexity score,
  domains, operation types) and evaluates its five rules in order, the first match
  winning; in particular more than 100 files with a score above 0.7 always gives
  Enterprise.
\<close>

theorem select_strategy_precedence:
  "(file_count c = file_count c' \<and> complexity_score c = complexity_score c'
      \<and> domains c = domains c' \<and> operation_types c = operation_types c'
      \<longrightarrow> select_strategy c = select_strategy c')
   \<and> (file_count c > 100 \<and> complexity_score c > 0.7 \<longrightarrow> select_strategy c = ENTERPRISE)
   \<and> (\<not> (file_count c > 100 \<and> complexity_score c > 0.7)
        \<and> length (domains c) > 2 \<and> length (operation_types c) > 3
        \<longrightarrow> select_strategy c = ADAPTIVE)
   \<and> (\<not> (file_count c > 100 \<and> complexity_score c > 0.7)
        \<and> \<not> (length (domains c) > 2 \<and> length (operation_types c) > 3)
        \<and> complexity_score c > 0.8 \<and> ''security_audit'' \<in> set (operation_types c)
        \<longrightarrow> select_strategy c = SYSTEMATIC)
   \<and> (\<not> (file_count c > 100 \<and> complexity_score c > 0.7)
        \<and> \<not> (length (domains c) > 2 \<and> length (operation_types c) > 3)
        \<and> \<not> (complexity_score c > 0.8 \<and> ''security_audit'' \<in> set (operation_types c))
        \<and> (''optimization'' \<in> set (operation_types c) \<or> ''refactoring'' \<in> set (operation_types c))
        \<longrightarrow> select_strategy c = PROGRESSIVE)
   \<and> (\<not> (file_count c > 100 \<and> complexity_score c > 0.7)
        \<and> \<not> (length (domains c) > 2 \<and> length (operation_types c) > 3)
        \<and> \<not> (complexity_score c > 0.8 \<and> ''security_audit'' \<in> set (operation_types c))
        \<and> \<not> (''optimization'' \<in> set (operation_types c) \<or> ''refactoring'' \<in> set (operation_types c))
        \<longrightarrow> select_strategy c = SYSTEMATIC)"
  by (simp add: select_strategy_def)

theorem select_strategy_precedence_witness:
  "select_strategy (make_context ''w'' PROGRESSIVE 0.85 150 [''optimization''] [] 0) = ENTERPRISE
   \<and> select_strategy (make_context ''w'' PROGRESSIVE 0.85 100 [''optimization''] [] 0) = PROGRESSIVE
   \<and> select_strategy (make_context ''w'' PROGRESSIVE 0.85 100 [''security_audit''] [] 0) = SYSTEMATIC"
  using select_strategy_precedence
          [where c = "make_context ''w'' PROGRESSIVE 0.85 150 [''optimization''] [] 0"]
        select_strategy_precedence
          [where c = "make_context ''w'' PROGRESSIVE 0.85 100 [''optimization''] [] 0"]
        select_strategy_precedence
          [where c = "make_context ''w'' PROGRESSIVE 0.85 100 [''security_audit''] [] 0"]
  by (simp add: make_context_def)

section \<open>Properties of the adaptive phase planner\<close>

text \<open>
  C4. The planned list is never empty, starts with REVIEW and contains IMPLEMENTATION;
  PLANNING, VALIDATION and OPTIMIZATION are present exactly under their conditions;
  and the list is the fixed order REVIEW, PLANNING, IMPLEMENTATION, VALIDATION,
  OPTIMIZATION restricted to the phases present.
\<close>

theorem select_adaptive_phases_plan:
  "select_adaptive_phases c \<noteq> [] \<and> hd (select_adaptive_phases c) = REVIEW
   \<and> IMPLEMENTATION \<in> set (select_adaptive_phases c)
   \<and> (PLANNING \<in> set (select_adaptive_phases c) \<longleftrightarrow> complexity_score c > 0.7)
   \<and> (VALIDATION \<in> set (select_adaptive_phases c)
        \<longleftrightarrow> ''testing'' \<in> set (operation_types c) \<or> complexity_score c > 0.6)
   \<and> (OPTIMIZATION \<in> set (select_adaptive_phases c)
        \<longleftrightarrow> ''optimization'' \<in> set (operation_types c)
            \<or> ''performance_tuning'' \<in> set (operation_types c))
   \<and> select_adaptive_phases c = filter (\<lambda>p. p \<in> set (select_adaptive_phases c)) all_phases"
  by (simp add: select_adaptive_phases_def all_phases_def Let_def)

theorem select_adaptive_phases_plan_witness:
  "PLANNING \<in> set (select_adaptive_phases (make_context ''w'' ADAPTIVE 0.75 10 [''optimization''] [] 0))
   \<and> VALIDATION \<in> set (select_adaptive_phases (make_context ''w'' ADAPTIVE 0.75 10 [''optimization''] [] 0))
   \<and> OPTIMIZATION \<in> set (select_adaptive_phases (make_context ''w'' ADAPTIVE 0.75 10 [''optimization''] [] 0))
   \<and> hd (select_adaptive_phases (make_context ''w'' ADAPTIVE 0.75 10 [''optimization''] [] 0)) = REVIEW"
  using select_adaptive_phases_plan
          [of "make_context ''w'' ADAPTIVE 0.75 10 [''optimization''] [] 0"]
  by (simp add: make_context_def)

section \<open>Properties of the complexity analyzer\<close>











section \<open>The phase loop\<close>

lemma phase_value_inj: "(phase_value p = phase_value q) = (p = q)"
  by (cases p; cases q) simp_all

lemma dict_set_keys: "fst ` set (dict_set k v d) = insert k (fst ` set d)"
proof (induction d)
  case Nil
  show ?case by simp
next
  case (Cons a d)
  obtain k' v' where a: "a = (k', v')" by (cases a)
  have "insert k' (insert k (fst ` set d)) = insert k (insert k' (fst ` set d))"
    by blast
  then show ?case
    by (simp add: a Cons.IH)
qed

lemma map_of_dict_set: "map_of (dict_set k v d) = (map_of d)(k \<mapsto> v)"
  by (induction d) auto

lemma execute_phase_db:
  "snd (execute_phase raises ctx p db) =
     db @ [InsertPhase (wave_id ctx) (phase_value p)
             (map_option ac_primary (map_of agents_config (phase_value p)))
             (case map_of agents_config (phase_value p) of None \<Rightarrow> [] | Some c \<Rightarrow> ac_support c),
           UpdatePhase None (if raises (wave_id ctx) p = None then ''completed'' else ''failed'')]"
  by (simp add: execute_phase_def Let_def split: option.splits)

lemma execute_phase_status:
  "pr_status (fst (execute_phase raises ctx p db)) =
     (if raises (wave_id ctx) p = None then ''completed'' else ''failed'')"
  by (simp add: execute_phase_def Let_def split: option.splits)

lemma run_phases_trace:
  "run_phases raises cfg phases (ctx, wr, db) = (ctx', wr', db') \<Longrightarrow>
     wave_id ctx' = wave_id ctx \<and> strategy ctx' = strategy ctx
   \<and> complexity_score ctx' = complexity_score ctx \<and> file_count ctx' = file_count ctx
   \<and> operation_types ctx' = operation_types ctx \<and> domains ctx' = domains ctx
   \<and> metrics ctx' = metrics ctx \<and> start_time ctx' = start_time ctx
   \<and> (\<exists>new. db' = db @ new
          \<and> map forget_snapshot new =
              concat (map (phase_writes raises cfg (wave_id ctx))
                        (executed_phases raises cfg (wave_id ctx) phases)))
   \<and> wr_phases_completed wr' =
       wr_phases_completed wr
       + length (filter (\<lambda>p. raises (wave_id ctx) p = None)
                   (executed_phases raises cfg (wave_id ctx) phases))
   \<and> fst ` set (wr_phases wr') =
       fst ` set (wr_phases wr) \<union> phase_value ` set (executed_phases raises cfg (wave_id ctx) phases)
   \<and> wr_wave_id wr' = wr_wave_id wr \<and> wr_strategy wr' = wr_strategy wr
   \<and> wr_success_rate wr' = wr_success_rate wr"
proof (induction phases arbitrary: ctx wr db)
  case Nil
  then show ?case by simp
next
  case (Cons p ps)
  define dbc where
    "dbc = (if sc_checkpoint_frequency cfg \<in> set [''per_phase'', ''continuous'']
            then create_checkpoint (ctx\<lparr>current_phase := p\<rparr>) p db else db)"
  define pr where "pr = fst (execute_phase raises (ctx\<lparr>current_phase := p\<rparr>) p dbc)"
  define c1 where
    "c1 = ctx\<lparr>current_phase := p,
               phase_results := dict_set (phase_value p) pr (phase_results ctx)\<rparr>"
  define w0 where "w0 = wr\<lparr>wr_phases := dict_set (phase_value p) pr (wr_phases wr)\<rparr>"
  define w1 where
    "w1 = (if pr_status pr = ''completed''
           then w0\<lparr>wr_phases_completed := wr_phases_completed w0 + 1\<rparr> else w0)"
  define d1 where "d1 = snd (execute_phase raises (ctx\<lparr>current_phase := p\<rparr>) p dbc)"
  have step: "run_phases raises cfg (p # ps) (ctx, wr, db) =
                (if pr_status pr = ''failed'' \<and> sc_rollback_enabled cfg then (c1, w1, d1)
                 else run_phases raises cfg ps (c1, w1, d1))"
    by (simp add: Let_def case_prod_unfold c1_def w1_def w0_def d1_def pr_def dbc_def)
  have st: "pr_status pr = (if raises (wave_id ctx) p = None then ''completed'' else ''failed'')"
    by (simp add: pr_def execute_phase_status)
  have c1: "wave_id c1 = wave_id ctx" "strategy c1 = strategy ctx"
    "complexity_score c1 = complexity_score ctx" "file_count c1 = file_count ctx"
    "operation_types c1 = operation_types ctx" "domains c1 = domains ctx"
    "metrics c1 = metrics ctx" "start_time c1 = start_time ctx"
    by (simp_all add: c1_def)
  have "\<exists>n1. d1 = db @ n1
              \<and> map forget_snapshot n1 = phase_writes raises cfg (wave_id ctx) p"
    by (cases "sc_checkpoint_frequency cfg \<in> set [''per_phase'', ''continuous'']")
       (simp_all add: d1_def dbc_def execute_phase_db create_checkpoint_def phase_writes_def)
  then obtain n1 where d1: "d1 = db @ n1"
    and n1: "map forget_snapshot n1 = phase_writes raises cfg (wave_id ctx) p"
    by blast
  have w1: "wr_phases_completed w1 =
              wr_phases_completed wr + (if raises (wave_id ctx) p = None then 1 else 0)"
    "fst ` set (wr_phases w1) = insert (phase_value p) (fst ` set (wr_phases wr))"
    "wr_wave_id w1 = wr_wave_id wr" "wr_strategy w1 = wr_strategy wr"
    "wr_success_rate w1 = wr_success_rate wr"
    by (simp_all add: w1_def w0_def st dict_set_keys)
  have res: "(if pr_status pr = ''failed'' \<and> sc_rollback_enabled cfg then (c1, w1, d1)
              else run_phases raises cfg ps (c1, w1, d1)) = (ctx', wr', db')"
    using Cons.prems unfolding step .
  show ?case
  proof (cases "raises (wave_id ctx) p \<noteq> None \<and> sc_rollback_enabled cfg")
    case True
    then have eq: "ctx' = c1" "wr' = w1" "db' = d1"
      using res st by auto
    have ex: "executed_phases raises cfg (wave_id ctx) (p # ps) = [p]"
      using True by simp
    show ?thesis
      unfolding eq ex using c1 d1 n1 w1 True by simp
  next
    case False
    then have rec: "run_phases raises cfg ps (c1, w1, d1) = (ctx', wr', db')"
      using res st by (auto split: if_splits)
    note ih = Cons.IH [OF rec, unfolded c1 w1]
    from ih obtain n2 where n2: "db' = d1 @ n2"
      "map forget_snapshot n2 =
         concat (map (phase_writes raises cfg (wave_id ctx))
                   (executed_phases raises cfg (wave_id ctx) ps))"
      by blast
    have writes: "\<exists>new. db' = db @ new
                    \<and> map forget_snapshot new =
                        concat (map (phase_writes raises cfg (wave_id ctx))
                                  (p # executed_phases raises cfg (wave_id ctx) ps))"
      using d1 n1 n2 by simp
    have ex: "executed_phases raises cfg (wave_id ctx) (p # ps) =
                p # executed_phases raises cfg (wave_id ctx) ps"
      using False by auto
    have keys: "fst ` set (wr_phases wr') =
                  fst ` set (wr_phases wr)
                  \<union> phase_value ` set (p # executed_phases raises cfg (wave_id ctx) ps)"
      using ih by auto
    show ?thesis
      unfolding ex using ih keys writes by simp
  qed
qed

lemma executed_phases_length:
  "length (executed_phases raises cfg wid ps) \<le> length ps"
  by (induction ps) auto

lemma executed_phases_subset:
  "set (executed_phases raises cfg wid ps) \<subseteq> set ps"
  by (induction ps) auto

lemma executed_phases_nonempty:
  "ps \<noteq> [] \<Longrightarrow> executed_phases raises cfg wid ps \<noteq> []"
  by (cases ps) auto

lemma executed_phases_all:
  "(\<forall>p \<in> set ps. raises wid p = None) \<or> \<not> sc_rollback_enabled cfg \<Longrightarrow>
     executed_phases raises cfg wid ps = ps"
  by (induction ps) auto

lemma executed_phases_halt:
  "\<forall>q \<in> set pre. raises wid q = None \<Longrightarrow> raises wid p \<noteq> None \<Longrightarrow>
     sc_rollback_enabled cfg \<Longrightarrow>
     executed_phases raises cfg wid (pre @ p # post) = pre @ [p]"
  by (induction pre) auto

lemma completed_le:
  "length (filter (\<lambda>p. raises wid p = None) (executed_phases raises cfg wid ps)) \<le> length ps"
  using executed_phases_length [of raises cfg wid ps]
        length_filter_le [of "\<lambda>p. raises wid p = None" "executed_phases raises cfg wid ps"]
  by linarith

lemma completed_all_iff:
  "(length (filter (\<lambda>p. raises wid p = None) (executed_phases raises cfg wid ps)) = length ps)
     = (\<forall>p \<in> set ps. raises wid p = None)"
proof (induction ps)
  case Nil
  show ?case by simp
next
  case (Cons p ps)
  show ?case
  proof (cases "raises wid p = None")
    case True
    then show ?thesis using Cons.IH by simp
  next
    case False
    have "filter (\<lambda>p. raises wid p = None) (executed_phases raises cfg wid (p # ps)) =
            (if sc_rollback_enabled cfg then []
             else filter (\<lambda>p. raises wid p = None) (executed_phases raises cfg wid ps))"
      using False by simp
    then have "length (filter (\<lambda>p. raises wid p = None)
                         (executed_phases raises cfg wid (p # ps))) \<le> length ps"
      using completed_le [of raises wid cfg ps] by (simp split: if_splits)
    then have "length (filter (\<lambda>p. raises wid p = None)
                         (executed_phases raises cfg wid (p # ps))) \<noteq> length (p # ps)"
      by simp
    moreover have "\<not> (\<forall>q \<in> set (p # ps). raises wid q = None)"
      using False by simp
    ultimately show ?thesis by blast
  qed
qed

lemma execute_wave_trace:
  fixes configs raises ctx
  defines "phases \<equiv> planned_phases configs ctx"
    and "cfg \<equiv> configs (strategy ctx)"
    and "wid \<equiv> wave_id ctx"
  defines "ex \<equiv> executed_phases raises cfg wid phases"
  defines "n_done \<equiv> length (filter (\<lambda>p. raises wid p = None) ex)"
  assumes run: "execute_wave configs raises ctx db = (res, ctx', db')"
  shows "wave_id ctx' = wid" "strategy ctx' = strategy ctx"
    "complexity_score ctx' = complexity_score ctx" "file_count ctx' = file_count ctx"
    "operation_types ctx' = operation_types ctx" "domains ctx' = domains ctx"
    "\<exists>new. db' = db @ [InsertWave wid (strategy_value (strategy ctx)) (complexity_score ctx)
                            (file_count ctx) (length phases)]
                 @ new
                 @ [UpdateWave wid (if wr_success_rate res = 1 then ''completed'' else ''partial'')
                      n_done]
           \<and> map forget_snapshot new = concat (map (phase_writes raises cfg wid) ex)"
    "wr_phases_completed res = n_done"
    "wr_success_rate res = (if phases \<noteq> [] then real n_done / real (length phases) else 0)"
    "fst ` set (wr_phases res) = phase_value ` set ex"
    "wr_wave_id res = wid" "wr_strategy res = strategy_value (strategy ctx)"
proof -
  define w0 where
    "w0 = \<lparr>wr_wave_id = wave_id ctx, wr_strategy = strategy_value (strategy ctx),
           wr_phases = [], wr_phases_completed = 0, wr_success_rate = 0\<rparr>"
  define db0 where
    "db0 = db @ [InsertWave (wave_id ctx) (strategy_value (strategy ctx))
                   (complexity_score ctx) (file_count ctx) (length phases)]"
  obtain c w d where rp: "run_phases raises cfg phases (ctx, w0, db0) = (c, w, d)"
    by (cases "run_phases raises cfg phases (ctx, w0, db0)") auto
  have ph: "phases = (if strategy ctx = ADAPTIVE then select_adaptive_phases ctx
                      else sc_phases cfg)"
    by (simp add: phases_def planned_phases_def cfg_def)
  have unfold: "execute_wave configs raises ctx db =
      (w\<lparr>wr_success_rate :=
           (if phases \<noteq> [] then real (wr_phases_completed w) / real (length phases) else 0)\<rparr>,
       c,
       d @ [UpdateWave (wave_id c)
              (if (if phases \<noteq> [] then real (wr_phases_completed w) / real (length phases)
                   else 0) = 1 then ''completed'' else ''partial'')
              (wr_phases_completed w)])"
    unfolding execute_wave_def Let_def cfg_def [symmetric] ph [symmetric]
      w0_def [symmetric] db0_def [symmetric] rp
    by simp
  note tr = run_phases_trace [OF rp]
  from tr obtain new where new: "d = db0 @ new"
    "map forget_snapshot new = concat (map (phase_writes raises cfg wid) ex)"
    unfolding ex_def wid_def by blast
  have eqs: "res = w\<lparr>wr_success_rate :=
           (if phases \<noteq> [] then real (wr_phases_completed w) / real (length phases) else 0)\<rparr>"
    "ctx' = c"
    "db' = d @ [UpdateWave (wave_id c)
              (if (if phases \<noteq> [] then real (wr_phases_completed w) / real (length phases)
                   else 0) = 1 then ''completed'' else ''partial'')
              (wr_phases_completed w)]"
    using run unfolding unfold by blast+
  have nd: "wr_phases_completed w = n_done"
    using tr by (simp add: n_done_def ex_def wid_def w0_def)
  show "wave_id ctx' = wid" "strategy ctx' = strategy ctx"
    "complexity_score ctx' = complexity_score ctx" "file_count ctx' = file_count ctx"
    "operation_types ctx' = operation_types ctx" "domains ctx' = domains ctx"
    using tr by (simp_all add: eqs wid_def)
  show "wr_phases_completed res = n_done"
    by (simp add: eqs nd)
  show "wr_success_rate res = (if phases \<noteq> [] then real n_done / real (length phases) else 0)"
    by (simp add: eqs nd)
  show "fst ` set (wr_phases res) = phase_value ` set ex"
    using tr by (simp add: eqs ex_def wid_def w0_def)
  show "wr_wave_id res = wid" "wr_strategy res = strategy_value (strategy ctx)"
    using tr by (simp_all add: eqs wid_def w0_def)
  have "wave_id c = wid" using tr by (simp add: wid_def)
  then show "\<exists>new. db' = db @ [InsertWave wid (strategy_value (strategy ctx))
                            (complexity_score ctx) (file_count ctx) (length phases)]
                 @ new
                 @ [UpdateWave wid (if wr_success_rate res = 1 then ''completed'' else ''partial'')
                      n_done]
           \<and> map forget_snapshot new = concat (map (phase_writes raises cfg wid) ex)"
    using new by (simp add: eqs nd db0_def wid_def)
qed

section \<open>Reading the store after a pass\<close>

lemma wave_row_forget:
  "foldl (wave_row_step wid) r (map forget_snapshot db) = foldl (wave_row_step wid) r db"
proof (induction db arbitrary: r)
  case Nil
  show ?case by simp
next
  case (Cons x db)
  show ?case by (cases x) (simp_all add: Cons.IH)
qed

lemma wave_row_phase_write:
  "foldl (wave_row_step wid) r (phase_writes raises cfg w p) = r"
  by (simp add: phase_writes_def)

lemma wave_row_phase_writes:
  "foldl (wave_row_step wid) r (concat (map (phase_writes raises cfg w) ex)) = r"
  by (induction ex) (simp_all add: wave_row_phase_write)

lemma started_append:
  "started_phases (a @ b) wid = started_phases a wid @ started_phases b wid"
  by (induction a wid rule: started_phases.induct) simp_all

lemma started_forget:
  "started_phases (map forget_snapshot db) wid = started_phases db wid"
  by (induction db wid rule: started_phases.induct) simp_all

lemma started_phase_write:
  "started_phases (phase_writes raises cfg wid p) wid = [phase_value p]"
  by (simp add: phase_writes_def)

lemma started_phase_writes:
  "started_phases (concat (map (phase_writes raises cfg wid) ex)) wid = map phase_value ex"
  by (induction ex) (simp_all add: started_phase_write started_append)

lemma checkpointed_append:
  "checkpointed_phases (a @ b) wid = checkpointed_phases a wid @ checkpointed_phases b wid"
  by (induction a wid rule: checkpointed_phases.induct) simp_all

lemma checkpointed_forget:
  "checkpointed_phases (map forget_snapshot db) wid = checkpointed_phases db wid"
  by (induction db wid rule: checkpointed_phases.induct) simp_all

lemma checkpointed_phase_writes:
  "checkpointed_phases (concat (map (phase_writes raises cfg wid) ex)) wid =
     (if sc_checkpoint_frequency cfg \<in> set [''per_phase'', ''continuous'']
      then map phase_value ex else [])"
proof (induction ex)
  case Nil
  show ?case by simp
next
  case (Cons p ex)
  have "checkpointed_phases (phase_writes raises cfg wid p) wid =
          (if sc_checkpoint_frequency cfg \<in> set [''per_phase'', ''continuous'']
           then [phase_value p] else [])"
    by (simp add: phase_writes_def)
  then show ?case
    using Cons.IH by (simp add: checkpointed_append)
qed

lemma cts_forget:
  "checkpoint_then_start (map forget_snapshot db) = checkpoint_then_start db"
proof (induction db)
  case Nil
  show ?case by simp
next
  case (Cons x db)
  show ?case
  proof (cases x)
    case (InsertCheckpoint w p a b)
    show ?thesis
    proof (cases db)
      case Nil
      then show ?thesis by (simp add: InsertCheckpoint)
    next
      case (Cons y ys)
      then show ?thesis using Cons.IH
        by (cases y) (simp_all add: InsertCheckpoint)
    qed
  qed (simp_all add: Cons.IH)
qed

lemma cts_phase_write:
  "checkpoint_then_start (phase_writes raises cfg wid p @ rest) = checkpoint_then_start rest"
  by (simp add: phase_writes_def)

lemma cts_phase_writes:
  "checkpoint_then_start (concat (map (phase_writes raises cfg wid) ex) @ rest) =
     checkpoint_then_start rest"
  by (induction ex) (simp_all add: cts_phase_write)

lemma planned_phases_nonempty: "planned_phases strategy_configs ctx \<noteq> []"
  by (cases "strategy ctx")
     (simp_all add: planned_phases_def all_phases_def select_adaptive_phases_def Let_def)

lemma new_writes:
  assumes "db' = db @ [a] @ new @ [b]"
  shows "take (length db) db' = db" "drop (length db) db' = [a] @ new @ [b]"
  using assms by simp_all

lemma execute_wave_store:
  fixes configs raises ctx
  defines "phases \<equiv> planned_phases configs ctx"
    and "cfg \<equiv> configs (strategy ctx)"
    and "wid \<equiv> wave_id ctx"
  defines "ex \<equiv> executed_phases raises cfg wid phases"
  assumes run: "execute_wave configs raises ctx db = (res, ctx', db')"
  shows "take (length db) db' = db"
    "started_phases (drop (length db) db') wid = map phase_value ex"
    "checkpointed_phases (drop (length db) db') wid =
       (if sc_checkpoint_frequency cfg \<in> set [''per_phase'', ''continuous'']
        then map phase_value ex else [])"
    "checkpoint_then_start (drop (length db) db')"
    "wave_row db' wid =
       Some (if wr_success_rate res = 1 then ''completed'' else ''partial'',
             wr_phases_completed res, length phases)"
proof -
  from execute_wave_trace(7) [OF run] obtain new where
    db': "db' = db @ [InsertWave wid (strategy_value (strategy ctx)) (complexity_score ctx)
                        (file_count ctx) (length phases)]
              @ new
              @ [UpdateWave wid (if wr_success_rate res = 1 then ''completed'' else ''partial'')
                   (length (filter (\<lambda>p. raises wid p = None) ex))]"
    and new: "map forget_snapshot new = concat (map (phase_writes raises cfg wid) ex)"
    unfolding phases_def cfg_def wid_def ex_def by blast
  have nd: "wr_phases_completed res = length (filter (\<lambda>p. raises wid p = None) ex)"
    using execute_wave_trace(8) [OF run]
    unfolding phases_def cfg_def wid_def ex_def .
  show "take (length db) db' = db"
    using db' by simp
  have dr: "drop (length db) db' =
              [InsertWave wid (strategy_value (strategy ctx)) (complexity_score ctx)
                 (file_count ctx) (length phases)]
              @ new
              @ [UpdateWave wid (if wr_success_rate res = 1 then ''completed'' else ''partial'')
                   (length (filter (\<lambda>p. raises wid p = None) ex))]"
    using db' by simp
  have "started_phases new wid = map phase_value ex"
    using started_forget [of new wid] new by (simp add: started_phase_writes)
  then show "started_phases (drop (length db) db') wid = map phase_value ex"
    by (simp add: dr started_append)
  have "checkpointed_phases new wid =
          (if sc_checkpoint_frequency cfg \<in> set [''per_phase'', ''continuous'']
           then map phase_value ex else [])"
    using checkpointed_forget [of new wid] new by (simp only: checkpointed_phase_writes)
  then show "checkpointed_phases (drop (length db) db') wid =
       (if sc_checkpoint_frequency cfg \<in> set [''per_phase'', ''continuous'']
        then map phase_value ex else [])"
    by (simp add: dr checkpointed_append)
  have "checkpoint_then_start (map forget_snapshot
          (new @ [UpdateWave wid (if wr_success_rate res = 1 then ''completed'' else ''partial'')
                   (length (filter (\<lambda>p. raises wid p = None) ex))]))"
    by (simp add: new cts_phase_writes)
  then have "checkpoint_then_start
          (new @ [UpdateWave wid (if wr_success_rate res = 1 then ''completed'' else ''partial'')
                   (length (filter (\<lambda>p. raises wid p = None) ex))])"
    by (simp only: cts_forget)
  then show "checkpoint_then_start (drop (length db) db')"
    by (simp add: dr)
  have "foldl (wave_row_step wid) r new = r" for r
    using wave_row_forget [of wid r new] new by (simp add: wave_row_phase_writes)
  then show "wave_row db' wid =
       Some (if wr_success_rate res = 1 then ''completed'' else ''partial'',
             wr_phases_completed res, length phases)"
    by (simp add: wave_row_def db' nd)
qed

section \<open>Properties of a wave pass\<close>

text \<open>
  C3. With the configured strategies the phase list of a pass is never empty; at the
  end of the pass the success rate is the number of completed phases divided by the
  number of planned phases, it is 1 exactly when all planned phases completed, and
  the row persisted for the wave holds status "completed" when the success rate is 1
  and "partial" otherwise, together with the two counts.
\<close>

theorem wave_outcome:
  assumes run: "execute_wave strategy_configs raises ctx db = (res, ctx', db')"
  shows "planned_phases strategy_configs ctx \<noteq> []
       \<and> wr_phases_completed res \<le> length (planned_phases strategy_configs ctx)
       \<and> wr_success_rate res =
           real (wr_phases_completed res) / real (length (planned_phases strategy_configs ctx))
       \<and> (wr_success_rate res = 1) =
           (wr_phases_completed res = length (planned_phases strategy_configs ctx))
       \<and> wave_row db' (wave_id ctx) =
           Some (if wr_success_rate res = 1 then ''completed'' else ''partial'',
                 wr_phases_completed res, length (planned_phases strategy_configs ctx))"
proof -
  have ne: "planned_phases strategy_configs ctx \<noteq> []"
    by (rule planned_phases_nonempty)
  have le: "wr_phases_completed res \<le> length (planned_phases strategy_configs ctx)"
    using execute_wave_trace(8) [OF run] by (simp add: completed_le)
  have sr: "wr_success_rate res =
           real (wr_phases_completed res) / real (length (planned_phases strategy_configs ctx))"
    using execute_wave_trace(9) [OF run] execute_wave_trace(8) [OF run] ne by simp
  have one: "(wr_success_rate res = 1) =
           (wr_phases_completed res = length (planned_phases strategy_configs ctx))"
    using ne by (auto simp: sr)
  show ?thesis
    using ne le sr one execute_wave_store(5) [OF run] by simp
qed

theorem wave_outcome_witness:
  "wave_row (snd (snd (execute_wave strategy_configs (\<lambda>w p. if p = IMPLEMENTATION then Some ''boom'' else None)
                         (make_context ''w'' PROGRESSIVE 0.5 10 [] [] 0) []))) ''w''
     = Some (''partial'', 1, 3)
   \<and> wr_success_rate (fst (execute_wave strategy_configs (\<lambda>w p. if p = IMPLEMENTATION then Some ''boom'' else None)
                         (make_context ''w'' PROGRESSIVE 0.5 10 [] [] 0) [])) = 1 / 3"
proof -
  define E where "E = execute_wave strategy_configs (\<lambda>w p. if p = IMPLEMENTATION then Some ''boom'' else None)
                         (make_context ''w'' PROGRESSIVE 0.5 10 [] [] 0) []"
  have run: "execute_wave strategy_configs (\<lambda>w p. if p = IMPLEMENTATION then Some ''boom'' else None)
                         (make_context ''w'' PROGRESSIVE 0.5 10 [] [] 0) [] = (fst E, fst (snd E), snd (snd E))"
    by (simp add: E_def)
  have c: "wr_phases_completed (fst E) = 1"
    by (simp add: E_def execute_wave_def Let_def execute_phase_def agents_config_def
          make_context_def)
  have p: "planned_phases strategy_configs (make_context ''w'' PROGRESSIVE 0.5 10 [] [] 0)
             = [REVIEW, IMPLEMENTATION, VALIDATION]"
    by (simp add: planned_phases_def make_context_def)
  have w: "wave_id (make_context ''w'' PROGRESSIVE 0.5 10 [] [] 0) = ''w''"
    by (simp add: make_context_def)
  show ?thesis
    using wave_outcome [OF run] c
    unfolding p w E_def [symmetric] by simp
qed

text \<open>
  C2, amended. Let the planned list be \<open>pre @ p # post\<close> where no phase of \<open>pre\<close>
  fails and \<open>p\<close> fails. If the strategy's rollback flag is set (it is for all four
  configured strategies) the pass executes and records exactly \<open>pre @ [p]\<close>, with
  \<open>length pre\<close> phases completed. If the flag is not set the pass goes on and executes
  every planned phase. In both cases the success rate is not 1 and the wave is
  persisted as "partial".
\<close>

theorem phase_failure_halts:
  assumes run: "execute_wave configs raises ctx db = (res, ctx', db')"
    and phases: "planned_phases configs ctx = pre @ p # post"
    and ok: "\<forall>q \<in> set pre. raises (wave_id ctx) q = None"
    and fail: "raises (wave_id ctx) p \<noteq> None"
  shows "(sc_rollback_enabled (configs (strategy ctx)) \<longrightarrow>
            started_phases (drop (length db) db') (wave_id ctx) = map phase_value (pre @ [p])
          \<and> fst ` set (wr_phases res) = phase_value ` set (pre @ [p])
          \<and> wr_phases_completed res = length pre)
       \<and> (\<not> sc_rollback_enabled (configs (strategy ctx)) \<longrightarrow>
            started_phases (drop (length db) db') (wave_id ctx)
              = map phase_value (pre @ p # post)
          \<and> fst ` set (wr_phases res) = phase_value ` set (pre @ p # post))
       \<and> wr_success_rate res \<noteq> 1
       \<and> take (length db) db' = db
       \<and> wave_row db' (wave_id ctx)
            = Some (''partial'', wr_phases_completed res, length (pre @ p # post))
       \<and> (\<forall>s. sc_rollback_enabled (strategy_configs s))"
proof -
  let ?cfg = "configs (strategy ctx)"
  let ?wid = "wave_id ctx"
  let ?ex = "executed_phases raises ?cfg ?wid (pre @ p # post)"
  note tr = execute_wave_trace [OF run, unfolded phases]
  note st = execute_wave_store [OF run, unfolded phases]
  have not_all: "\<not> (\<forall>q \<in> set (pre @ p # post). raises ?wid q = None)"
    using fail by auto
  have lt: "wr_phases_completed res \<noteq> length (pre @ p # post)"
    using tr(8) completed_all_iff [of raises ?wid ?cfg "pre @ p # post"] not_all by simp
  have sr: "wr_success_rate res \<noteq> 1"
    using tr(9) tr(8) lt by simp
  have halt: "sc_rollback_enabled ?cfg \<Longrightarrow> ?ex = pre @ [p]"
    using executed_phases_halt [where pre = pre and raises = raises and wid = "wave_id ctx"
            and p = p and cfg = "configs (strategy ctx)" and post = post] ok fail
    by simp
  have cont: "\<not> sc_rollback_enabled ?cfg \<Longrightarrow> ?ex = pre @ p # post"
    using executed_phases_all [of "pre @ p # post" raises ?wid ?cfg] by simp
  have filt: "filter (\<lambda>q. raises ?wid q = None) (pre @ [p]) = pre"
    using ok fail by simp
  have a: "sc_rollback_enabled ?cfg \<longrightarrow>
            started_phases (drop (length db) db') ?wid = map phase_value (pre @ [p])
          \<and> fst ` set (wr_phases res) = phase_value ` set (pre @ [p])
          \<and> wr_phases_completed res = length pre"
    using st(2) tr(10) tr(8) halt filt by simp
  have b: "\<not> sc_rollback_enabled ?cfg \<longrightarrow>
            started_phases (drop (length db) db') ?wid = map phase_value (pre @ p # post)
          \<and> fst ` set (wr_phases res) = phase_value ` set (pre @ p # post)"
    using st(2) tr(10) cont by simp
  have c: "wave_row db' ?wid = Some (''partial'', wr_phases_completed res, length (pre @ p # post))"
    using st(5) sr by simp
  have d: "\<forall>s. sc_rollback_enabled (strategy_configs s)"
  proof
    fix s show "sc_rollback_enabled (strategy_configs s)" by (cases s) simp_all
  qed
  show ?thesis
    using a b c d sr st(1) by blast
qed

theorem phase_failure_halts_witness:
  "started_phases (snd (snd (execute_wave strategy_configs
       (\<lambda>w p. if p = IMPLEMENTATION then Some ''boom'' else None)
       (make_context ''w'' SYSTEMATIC 0.5 10 [] [] 0) []))) ''w''
     = [''review'', ''planning'', ''implementation'']
   \<and> wave_row (snd (snd (execute_wave strategy_configs
       (\<lambda>w p. if p = IMPLEMENTATION then Some ''boom'' else None)
       (make_context ''w'' SYSTEMATIC 0.5 10 [] [] 0) []))) ''w''
     = Some (''partial'', 2, 5)"
proof -
  define raises where
    "raises = (\<lambda>(w::string) p. if p = IMPLEMENTATION then Some ''boom'' else None)"
  define ctx where "ctx = make_context ''w'' SYSTEMATIC 0.5 10 [] [] 0"
  define E where "E = execute_wave strategy_configs raises ctx []"
  have run: "execute_wave strategy_configs raises ctx [] = (fst E, fst (snd E), snd (snd E))"
    by (simp add: E_def)
  have ph: "planned_phases strategy_configs ctx
              = [REVIEW, PLANNING] @ IMPLEMENTATION # [VALIDATION, OPTIMIZATION]"
    by (simp add: planned_phases_def ctx_def make_context_def all_phases_def)
  have ok: "\<forall>q \<in> set [REVIEW, PLANNING]. raises (wave_id ctx) q = None"
    by (simp add: raises_def)
  have fail: "raises (wave_id ctx) IMPLEMENTATION \<noteq> None"
    by (simp add: raises_def)
  have w: "wave_id ctx = ''w''" "strategy ctx = SYSTEMATIC"
    by (simp_all add: ctx_def make_context_def)
  show ?thesis
    using phase_failure_halts [OF run ph ok fail]
    unfolding E_def [symmetric] raises_def [symmetric] ctx_def [symmetric]
    by (simp add: w)
qed

text \<open>
  C2, as stated, fails when the rollback flag is not set: in a systematic pass whose
  configuration has the flag cleared and whose first phase REVIEW fails, the four later
  phases are still executed and recorded.
\<close>

theorem phase_failure_continues_counterexample:
  "started_phases (snd (snd (execute_wave
       (\<lambda>s. (strategy_configs s)\<lparr>sc_rollback_enabled := False\<rparr>)
       (\<lambda>w p. if p = REVIEW then Some ''boom'' else None)
       (make_context ''w'' SYSTEMATIC 0.5 10 [] [] 0) []))) ''w''
     = [''review'', ''planning'', ''implementation'', ''validation'', ''optimization'']
   \<and> map_option pr_status (map_of (wr_phases (fst (execute_wave
       (\<lambda>s. (strategy_configs s)\<lparr>sc_rollback_enabled := False\<rparr>)
       (\<lambda>w p. if p = REVIEW then Some ''boom'' else None)
       (make_context ''w'' SYSTEMATIC 0.5 10 [] [] 0) []))) ''review'') = Some ''failed''
   \<and> map_option pr_status (map_of (wr_phases (fst (execute_wave
       (\<lambda>s. (strategy_configs s)\<lparr>sc_rollback_enabled := False\<rparr>)
       (\<lambda>w p. if p = REVIEW then Some ''boom'' else None)
       (make_context ''w'' SYSTEMATIC 0.5 10 [] [] 0) []))) ''planning'') = Some ''completed''"
  by (simp add: execute_wave_def Let_def execute_phase_def agents_config_def
        create_checkpoint_def make_context_def all_phases_def)




section \<open>The progressive loop\<close>


lemma take_until_nonempty: "xs \<noteq> [] \<Longrightarrow> take_until P xs \<noteq> []"
  by (cases xs) auto

lemma take_until_take: "take_until P xs = take (length (take_until P xs)) xs"
  by (induction xs) auto

lemma take_until_not_last:
  "Suc k < length (take_until P xs) \<Longrightarrow> \<not> P (take_until P xs ! k)"
proof (induction xs arbitrary: k)
  case Nil
  then show ?case by simp
next
  case (Cons x xs)
  then show ?case
    by (cases k) (auto split: if_splits)
qed

lemma take_until_short:
  "length (take_until P xs) < length xs \<Longrightarrow>
     take_until P xs \<noteq> [] \<and> P (last (take_until P xs))"
  by (induction xs) (auto simp: take_until_nonempty)


lemma take_until_cong:
  "\<forall>x \<in> set xs. P x = Q x \<Longrightarrow> take_until P xs = take_until Q xs"
  by (induction xs) auto

lemma take_until_hd: "xs \<noteq> [] \<Longrightarrow> P (hd xs) \<Longrightarrow> take_until P xs = [hd xs]"
  by (cases xs) auto

lemma progressive_loop_eq:
  "fst (progressive_loop configs raises idx (acc, st)) =
     acc @ take_until converged (all_passes configs raises idx st)"
proof (induction idx arbitrary: acc st)
  case Nil
  show ?case by simp
next
  case (Cons i idx)
  obtain ctx db where st: "st = (ctx, db)" by (cases st)
  show ?case
    by (simp add: st Let_def case_prod_unfold Cons.IH)
qed

lemma all_passes_length: "length (all_passes configs raises idx st) = length idx"
proof (induction idx arbitrary: st)
  case Nil
  show ?case by simp
next
  case (Cons i idx)
  obtain ctx db where st: "st = (ctx, db)" by (cases st)
  show ?case
    by (simp add: st Let_def case_prod_unfold Cons.IH)
qed

lemma planned_phases_cong:
  "strategy c = strategy c' \<Longrightarrow> complexity_score c = complexity_score c' \<Longrightarrow>
     operation_types c = operation_types c' \<Longrightarrow>
     planned_phases configs c = planned_phases configs c'"
  by (simp add: planned_phases_def select_adaptive_phases_def)

lemma all_passes_step:
  "execute_wave configs raises
      (ctx\<lparr>wave_id := wave_id ctx @ ''_iter'' @ string_of_nat (i + 1)\<rparr>) db = (r, c, d) \<Longrightarrow>
   all_passes configs raises (i # idx) (ctx, db) = r # all_passes configs raises idx (c, d)"
  by simp




lemma all_passes_keys:
  "\<forall>r \<in> set (all_passes configs raises idx (ctx, db)).
      fst ` set (wr_phases r) \<subseteq> phase_value ` set (planned_phases configs ctx)"
proof (induction idx arbitrary: ctx db)
  case Nil
  show ?case by simp
next
  case (Cons i idx)
  define ctx1 where "ctx1 = ctx\<lparr>wave_id := wave_id ctx @ ''_iter'' @ string_of_nat (i + 1)\<rparr>"
  obtain r c d where ew: "execute_wave configs raises ctx1 db = (r, c, d)"
    by (cases "execute_wave configs raises ctx1 db") auto
  have step: "all_passes configs raises (i # idx) (ctx, db) =
                r # all_passes configs raises idx (c, d)"
    using ew unfolding ctx1_def by (rule all_passes_step)
  have p1: "planned_phases configs ctx1 = planned_phases configs ctx"
    by (rule planned_phases_cong) (simp_all add: ctx1_def)
  have pc: "planned_phases configs c = planned_phases configs ctx"
    using execute_wave_trace(2,3,5) [OF ew]
    by (intro planned_phases_cong) (simp_all add: ctx1_def)
  have rk: "fst ` set (wr_phases r) \<subseteq> phase_value ` set (planned_phases configs ctx)"
    using execute_wave_trace(10) [OF ew]
      executed_phases_subset [of raises "configs (strategy ctx1)" "wave_id ctx1"
        "planned_phases configs ctx1"]
    unfolding p1 by auto
  show ?case
    unfolding step using Cons.IH [of c d] rk by (simp add: pc)
qed

lemma no_optimization_improvement:
  "fst ` set (wr_phases r) \<subseteq> phase_value ` set ps \<Longrightarrow> OPTIMIZATION \<notin> set ps \<Longrightarrow>
     improvement_of r = PStr ''0%''"
proof -
  assume sub: "fst ` set (wr_phases r) \<subseteq> phase_value ` set ps" and no: "OPTIMIZATION \<notin> set ps"
  have "''optimization'' \<notin> phase_value ` set ps"
  proof
    assume "''optimization'' \<in> phase_value ` set ps"
    then obtain q where q: "q \<in> set ps" "phase_value q = ''optimization''" by auto
    have "phase_value q = phase_value OPTIMIZATION" using q(2) by simp
    then have "q = OPTIMIZATION" by (simp only: phase_value_inj)
    with q no show False by simp
  qed
  then have "''optimization'' \<notin> fst ` set (wr_phases r)" using sub by blast
  then have "map_of (wr_phases r) ''optimization'' = None"
    by (simp add: map_of_eq_None_iff)
  then show ?thesis by (simp add: improvement_of_def)
qed

lemma string_of_nat_1: "string_of_nat (Suc 0) = ''1''"
  by (simp add: string_of_nat.simps)


lemma run_progressive_eq:
  "fst (run_progressive_waves configs raises ctx iterations db) =
     take_until converged (all_passes configs raises [0..<nat iterations] (ctx, db))"
  using progressive_loop_eq [of configs raises "[0..<nat iterations]" "[]" "(ctx, db)"]
  by (simp add: run_progressive_waves_def)

lemma first_pass:
  "0 < n \<Longrightarrow>
     all_passes configs raises [0..<n] (ctx, db) ! 0 =
       fst (execute_wave configs raises (ctx\<lparr>wave_id := wave_id ctx @ ''_iter1''\<rparr>) db)"
proof -
  assume "0 < n"
  then have "[0..<n] = 0 # [Suc 0..<n]" by (simp add: upt_conv_Cons)
  then show ?thesis
    by (simp add: Let_def case_prod_unfold string_of_nat_1)
qed


section \<open>Properties of the progressive iteration controller\<close>




section \<open>Convergence when no optimization phase is planned\<close>

text \<open>
  C10. When OPTIMIZATION is not among the planned phases (as for the Progressive
  strategy, whose list is REVIEW, IMPLEMENTATION, VALIDATION), every pass reads the
  missing performance gain as the sentinel "0%", so a pass converges exactly when its
  success rate is 1: the controller returns the passes up to and including the first
  one with success rate 1, whatever the number of iterations; if all phases of the
  first pass succeed it returns that single pass.
\<close>

theorem progressive_without_optimization:
  fixes configs raises ctx iterations db
  defines "passes \<equiv> all_passes configs raises [0..<nat iterations] (ctx, db)"
  defines "rs \<equiv> fst (run_progressive_waves configs raises ctx iterations db)"
  assumes no: "OPTIMIZATION \<notin> set (planned_phases configs ctx)"
  shows "(\<forall>r \<in> set passes. improvement_of r = PStr ''0%''
                             \<and> converged r = (wr_success_rate r = 1))
       \<and> rs = take_until (\<lambda>r. wr_success_rate r = 1) passes
       \<and> (\<forall>k. Suc k < length rs \<longrightarrow> wr_success_rate (rs ! k) \<noteq> 1)
       \<and> (length rs < nat iterations \<longrightarrow> rs \<noteq> [] \<and> wr_success_rate (last rs) = 1)
       \<and> (0 < iterations \<and> planned_phases configs ctx \<noteq> []
            \<and> (\<forall>p \<in> set (planned_phases configs ctx). raises (wave_id ctx @ ''_iter1'') p = None)
            \<longrightarrow> length rs = 1)
       \<and> (strategy ctx = PROGRESSIVE \<longrightarrow>
            planned_phases strategy_configs ctx = [REVIEW, IMPLEMENTATION, VALIDATION])"
proof -
  have imp: "\<forall>r \<in> set passes. improvement_of r = PStr ''0%''"
    unfolding passes_def
    using all_passes_keys [of configs raises "[0..<nat iterations]" ctx db]
      no_optimization_improvement [OF _ no] by blast
  then have cv: "\<forall>r \<in> set passes. converged r = (wr_success_rate r = 1)"
    by (simp add: converged_def)
  have eq: "rs = take_until (\<lambda>r. wr_success_rate r = 1) passes"
    unfolding rs_def passes_def run_progressive_eq
    using cv [unfolded passes_def] by (rule take_until_cong)
  have len: "length passes = nat iterations"
    unfolding passes_def by (simp add: all_passes_length)
  have nl: "\<forall>k. Suc k < length rs \<longrightarrow> wr_success_rate (rs ! k) \<noteq> 1"
    unfolding eq using take_until_not_last [of _ "\<lambda>r. wr_success_rate r = 1" passes] by blast
  have sh: "length rs < nat iterations \<longrightarrow> rs \<noteq> [] \<and> wr_success_rate (last rs) = 1"
    unfolding eq using take_until_short [of "\<lambda>r. wr_success_rate r = 1" passes]
    by (simp add: len)
  have one: "0 < iterations \<and> planned_phases configs ctx \<noteq> []
            \<and> (\<forall>p \<in> set (planned_phases configs ctx). raises (wave_id ctx @ ''_iter1'') p = None)
            \<longrightarrow> length rs = 1"
  proof (intro impI, elim conjE)
    assume pos: "0 < iterations" and ne: "planned_phases configs ctx \<noteq> []"
      and ok: "\<forall>p \<in> set (planned_phases configs ctx). raises (wave_id ctx @ ''_iter1'') p = None"
    define ctx1 where "ctx1 = ctx\<lparr>wave_id := wave_id ctx @ ''_iter1''\<rparr>"
    obtain r c d where ew: "execute_wave configs raises ctx1 db = (r, c, d)"
      by (cases "execute_wave configs raises ctx1 db") auto
    have p1: "planned_phases configs ctx1 = planned_phases configs ctx"
      by (rule planned_phases_cong) (simp_all add: ctx1_def)
    have w1: "wave_id ctx1 = wave_id ctx @ ''_iter1''"
      by (simp add: ctx1_def)
    have "wr_phases_completed r = length (planned_phases configs ctx)"
      using execute_wave_trace(8) [OF ew]
        completed_all_iff [of raises "wave_id ctx1" "configs (strategy ctx1)"
          "planned_phases configs ctx1"] ok
      unfolding p1 w1 by simp
    then have sr: "wr_success_rate r = 1"
      using execute_wave_trace(9) [OF ew] execute_wave_trace(8) [OF ew] ne
      unfolding p1 w1 by simp
    have pn: "passes \<noteq> []"
      using len pos by auto
    have "passes ! 0 = r"
      unfolding passes_def
      using first_pass [of "nat iterations" configs raises ctx db] pos ew
      by (simp add: ctx1_def)
    then have "hd passes = r" using pn by (simp add: hd_conv_nth)
    then have "rs = [r]"
      unfolding eq using take_until_hd [of passes "\<lambda>r. wr_success_rate r = 1"] pn sr by simp
    then show "length rs = 1" by simp
  qed
  have pg: "strategy ctx = PROGRESSIVE \<longrightarrow>
            planned_phases strategy_configs ctx = [REVIEW, IMPLEMENTATION, VALIDATION]"
    by (simp add: planned_phases_def)
  show ?thesis
    using imp cv eq nl sh one pg by blast
qed

theorem progressive_without_optimization_witness:
  "length (fst (run_progressive_waves strategy_configs (\<lambda>w p. None)
        (make_context ''w'' PROGRESSIVE 0.5 10 [''optimization''] [] 0) 5 [])) = 1"
proof -
  define ctx where "ctx = make_context ''w'' PROGRESSIVE 0.5 10 [''optimization''] [] 0"
  have ph: "planned_phases strategy_configs ctx = [REVIEW, IMPLEMENTATION, VALIDATION]"
    by (simp add: planned_phases_def ctx_def make_context_def)
  have no: "OPTIMIZATION \<notin> set (planned_phases strategy_configs ctx)"
    by (simp add: ph)
  have "0 < (5::int) \<and> planned_phases strategy_configs ctx \<noteq> []
          \<and> (\<forall>p \<in> set (planned_phases strategy_configs ctx).
                (\<lambda>(w::string) (p::WavePhase). None::string option) (wave_id ctx @ ''_iter1'') p = None)
        \<longrightarrow> length (fst (run_progressive_waves strategy_configs (\<lambda>w p. None) ctx 5 [])) = 1"
    using progressive_without_optimization [OF no, of "\<lambda>w p. None" 5 "[]"] by blast
  then show ?thesis
    unfolding ctx_def [symmetric] by (simp add: ph)
qed

section \<open>Properties of the enterprise fan-out controller\<close>

lemma bridge_phases_keys:
  "fst ` set (fst (bridge_phases gs cfg ctx phases st)) =
     fst ` set (fst st) \<union> phase_value ` set phases"
proof (induction phases arbitrary: st)
  case Nil
  show ?case by simp
next
  case (Cons p ps)
  obtain pr db where st: "st = (pr, db)" by (cases st)
  show ?case
    by (simp add: st Let_def Cons.IH dict_set_keys)
qed

lemma bridge_phases_nonempty:
  "phases \<noteq> [] \<Longrightarrow> fst (bridge_phases gs cfg ctx phases st) \<noteq> []"
proof
  assume ne: "phases \<noteq> []" and e: "fst (bridge_phases gs cfg ctx phases st) = []"
  have "phase_value ` set phases \<subseteq> fst ` set (fst (bridge_phases gs cfg ctx phases st))"
    by (simp add: bridge_phases_keys)
  then show False using ne e by simp
qed

lemma execute_wave_with_agents_result:
  assumes "strategy ctx \<noteq> ADAPTIVE" and "sc_phases (configs (strategy ctx)) \<noteq> []"
  shows "\<exists>w d. execute_wave_with_agents gs configs ctx db = Inr (w, d)
           \<and> br_status w = (if br_overall_score w > 0.7 then ''success''
                             else ''needs_improvement'')"
  using assms bridge_phases_nonempty [of "sc_phases (configs (strategy ctx))" gs
          "configs (strategy ctx)" ctx "([], db)"]
  by (simp add: execute_wave_with_agents_def Let_def case_prod_unfold)

lemma enterprise_context_strategy:
  "strategy (enterprise_context fs gen_id now i target) = ENTERPRISE"
  by (simp add: enterprise_context_def make_context_def case_prod_unfold Let_def)

lemma map_all_Inr:
  "\<forall>x \<in> set xs. \<exists>w. f x = Inr w \<and> Q w \<Longrightarrow>
     \<exists>ws. map f xs = map Inr ws \<and> length ws = length xs \<and> (\<forall>w \<in> set ws. Q w)"
proof (induction xs)
  case Nil
  show ?case by simp
next
  case (Cons x xs)
  from Cons.prems obtain w where w: "f x = Inr w" "Q w" by auto
  from Cons obtain ws where ws: "map f xs = map Inr ws" "length ws = length xs"
    "\<forall>w \<in> set ws. Q w" by auto
  show ?case
    by (rule exI [of _ "w # ws"]) (simp add: w ws)
qed

lemma enterprise_tasks_Inr:
  assumes "sc_phases (configs ENTERPRISE) \<noteq> []"
  shows "\<exists>waves. enterprise_tasks fs gen_id now gs configs db targets = map Inr waves
           \<and> length waves = length targets
           \<and> (\<forall>w \<in> set waves. br_status w = (if br_overall_score w > 0.7 then ''success''
                                                  else ''needs_improvement''))"
proof -
  let ?f = "\<lambda>(i, target). map_sum id fst
              (execute_wave_with_agents gs configs (enterprise_context fs gen_id now i target) db)"
  have "\<forall>x \<in> set (zip [0..<length targets] targets).
          \<exists>w. ?f x = Inr w \<and> br_status w = (if br_overall_score w > 0.7 then ''success''
                                                else ''needs_improvement'')"
  proof
    fix x assume "x \<in> set (zip [0..<length targets] targets)"
    obtain i t where x: "x = (i, t)" by (cases x)
    from execute_wave_with_agents_result [of "enterprise_context fs gen_id now i t" configs gs db]
    obtain w d where
      "execute_wave_with_agents gs configs (enterprise_context fs gen_id now i t) db = Inr (w, d)"
      "br_status w = (if br_overall_score w > 0.7 then ''success'' else ''needs_improvement'')"
      using assms by (auto simp: enterprise_context_strategy)
    then show "\<exists>w. ?f x = Inr w \<and> br_status w = (if br_overall_score w > 0.7 then ''success''
                                                else ''needs_improvement'')"
      by (simp add: x)
  qed
  from map_all_Inr [OF this] show ?thesis
    by (simp add: enterprise_tasks_def)
qed

lemma gather_Inr: "gather (map Inr ws) = Inr ws"
  by (induction ws) simp_all

lemma compile_results_summary:
  "sm_successful (er_summary (compile_results trs a)) =
     sm_successful (er_summary a) + length (filter (\<lambda>w. br_status w = ''success'') (map snd trs))
   \<and> sm_failed (er_summary (compile_results trs a)) =
     sm_failed (er_summary a) + length (filter (\<lambda>w. br_status w \<noteq> ''success'') (map snd trs))
   \<and> sm_total_targets (er_summary (compile_results trs a)) = sm_total_targets (er_summary a)
   \<and> er_strategy (compile_results trs a) = er_strategy a"
proof (induction trs arbitrary: a)
  case Nil
  show ?case by simp
next
  case (Cons x trs)
  obtain t r where x: "x = (t, r)" by (cases x)
  show ?case
    by (simp add: x Let_def Cons.IH)
qed

text \<open>
  C8, amended. For a non-empty list of targets the controller returns a summary in
  which \<open>successful\<close> counts the waves whose status is "success", which is the case
  exactly when the wave's overall score exceeds 0.7 (no wave of this path ever has
  status "completed"), \<open>failed\<close> counts the others, the two add up to
  \<open>total_targets\<close>, and \<open>average_score\<close> is the arithmetic mean of the overall
  scores of all waves, the failed ones included. For an empty list the mean divides by
  zero and the call raises.
\<close>

theorem enterprise_summary:
  "(targets \<noteq> [] \<and> sc_phases (configs ENTERPRISE) \<noteq> [] \<longrightarrow>
      (\<exists>out waves.
          run_enterprise_wave fs gen_id now gs configs db targets = Inr out
        \<and> enterprise_tasks fs gen_id now gs configs db targets = map Inr waves
        \<and> length waves = length targets
        \<and> (\<forall>w \<in> set waves. (br_status w = ''success'') = (br_overall_score w > 0.7)
                              \<and> br_status w \<noteq> ''completed'')
        \<and> sm_total_targets (er_summary out) = length targets
        \<and> sm_successful (er_summary out)
            = length (filter (\<lambda>w. br_status w = ''success'') waves)
        \<and> sm_failed (er_summary out)
            = length (filter (\<lambda>w. br_status w \<noteq> ''success'') waves)
        \<and> sm_successful (er_summary out) + sm_failed (er_summary out)
            = sm_total_targets (er_summary out)
        \<and> sm_average_score (er_summary out)
            = sum_list (map br_overall_score waves) / real (length waves)))
   \<and> (targets = [] \<longrightarrow>
        run_enterprise_wave fs gen_id now gs configs db targets = Inl ZeroDivisionError)
   \<and> sc_phases (strategy_configs ENTERPRISE) \<noteq> []"
proof -
  have a: "targets \<noteq> [] \<and> sc_phases (configs ENTERPRISE) \<noteq> [] \<longrightarrow>
      (\<exists>out waves.
          run_enterprise_wave fs gen_id now gs configs db targets = Inr out
        \<and> enterprise_tasks fs gen_id now gs configs db targets = map Inr waves
        \<and> length waves = length targets
        \<and> (\<forall>w \<in> set waves. (br_status w = ''success'') = (br_overall_score w > 0.7)
                              \<and> br_status w \<noteq> ''completed'')
        \<and> sm_total_targets (er_summary out) = length targets
        \<and> sm_successful (er_summary out)
            = length (filter (\<lambda>w. br_status w = ''success'') waves)
        \<and> sm_failed (er_summary out)
            = length (filter (\<lambda>w. br_status w \<noteq> ''success'') waves)
        \<and> sm_successful (er_summary out) + sm_failed (er_summary out)
            = sm_total_targets (er_summary out)
        \<and> sm_average_score (er_summary out)
            = sum_list (map br_overall_score waves) / real (length waves))"
  proof (intro impI, elim conjE)
    assume ne: "targets \<noteq> []" and ph: "sc_phases (configs ENTERPRISE) \<noteq> []"
    from enterprise_tasks_Inr [where configs = configs and fs = fs and gen_id = gen_id
           and now = now and gs = gs and db = db and targets = targets] ph
    obtain waves where tasks: "enterprise_tasks fs gen_id now gs configs db targets = map Inr waves"
      and len: "length waves = length targets"
      and st: "\<forall>w \<in> set waves. br_status w = (if br_overall_score w > 0.7 then ''success''
                                                  else ''needs_improvement'')"
      by blast
    have wne: "waves \<noteq> []" using ne len by auto
    define a0 where
      "a0 = \<lparr>er_strategy = ''enterprise'', er_targets = [],
             er_summary = \<lparr>sm_total_targets = length targets, sm_successful = 0,
                           sm_failed = 0, sm_average_score = 0\<rparr>\<rparr>"
    define a1 where "a1 = compile_results (zip targets waves) a0"
    define out where
      "out = a1\<lparr>er_summary := (er_summary a1)
                 \<lparr>sm_average_score := sum_list (map br_overall_score waves)
                                        / real (length waves)\<rparr>\<rparr>"
    have run: "run_enterprise_wave fs gen_id now gs configs db targets = Inr out"
      by (simp add: run_enterprise_wave_def tasks gather_Inr wne Let_def out_def a1_def a0_def)
    have sn: "map snd (zip targets waves) = waves"
      using len by (simp add: map_snd_zip)
    note cs = compile_results_summary [of "zip targets waves" a0, unfolded sn, folded a1_def]
    have s1: "sm_successful (er_summary out)
                = length (filter (\<lambda>w. br_status w = ''success'') waves)"
      using cs by (simp add: out_def a0_def)
    have s2: "sm_failed (er_summary out)
                = length (filter (\<lambda>w. br_status w \<noteq> ''success'') waves)"
      using cs by (simp add: out_def a0_def)
    have s3: "sm_total_targets (er_summary out) = length targets"
      using cs by (simp add: out_def a0_def)
    have s4: "sm_successful (er_summary out) + sm_failed (er_summary out)
                = sm_total_targets (er_summary out)"
      using sum_length_filter_compl [of "\<lambda>w. br_status w = ''success''" waves]
      by (simp add: s1 s2 s3 len)
    have s5: "sm_average_score (er_summary out)
                = sum_list (map br_overall_score waves) / real (length waves)"
      by (simp add: out_def)
    have s6: "\<forall>w \<in> set waves. (br_status w = ''success'') = (br_overall_score w > 0.7)
                              \<and> br_status w \<noteq> ''completed''"
      using st by auto
    show "\<exists>out waves.
          run_enterprise_wave fs gen_id now gs configs db targets = Inr out
        \<and> enterprise_tasks fs gen_id now gs configs db targets = map Inr waves
        \<and> length waves = length targets
        \<and> (\<forall>w \<in> set waves. (br_status w = ''success'') = (br_overall_score w > 0.7)
                              \<and> br_status w \<noteq> ''completed'')
        \<and> sm_total_targets (er_summary out) = length targets
        \<and> sm_successful (er_summary out)
            = length (filter (\<lambda>w. br_status w = ''success'') waves)
        \<and> sm_failed (er_summary out)
            = length (filter (\<lambda>w. br_status w \<noteq> ''success'') waves)
        \<and> sm_successful (er_summary out) + sm_failed (er_summary out)
            = sm_total_targets (er_summary out)
        \<and> sm_average_score (er_summary out)
            = sum_list (map br_overall_score waves) / real (length waves)"
      using run tasks len s1 s2 s3 s4 s5 s6 by blast
  qed
  have b: "targets = [] \<longrightarrow>
        run_enterprise_wave fs gen_id now gs configs db targets = Inl ZeroDivisionError"
    by (simp add: run_enterprise_wave_def enterprise_tasks_def Let_def)
  have c: "sc_phases (strategy_configs ENTERPRISE) \<noteq> []"
    by (simp add: all_phases_def)
  show ?thesis using a b c by blast
qed

end
